theory Spec2Isabelle
  imports Main
begin

section \<open>The Jupyter kernel supervisor (JupyterKernel.ts)\<close>

text \<open>
  A shallow embedding of the class \<open>JupyterKernel\<close> of
  \<^verbatim>\<open>extensions/jupyter-adapter/src/JupyterKernel.ts\<close>. The class is event driven: every
  method and every callback it registers runs to completion on one event loop. Each of
  them is a function from the supervisor's state to its next state. The state holds the
  private fields of the class, the listeners, timers and continuations the class has
  registered, the host objects it reads and writes (workspace storage, terminals, clock),
  and the list of the effects it has had on its collaborators, oldest first.
\<close>

subsection \<open>Enumerations (extHostTypes.positron.ts)\<close>

datatype RuntimeState =
    Uninitialized | Initializing | Starting | Ready | Idle | Busy
  | Exiting | Exited | Offline | Interrupting

datatype RuntimeCodeExecutionMode = Interactive | Transient | Silent

datatype RuntimeErrorBehavior = Stop | Continue

text \<open>The members of \<open>JupyterSockets\<close>, as the switch of \<open>sendMessage\<close> lists them.\<close>

datatype JupyterSockets = Control | Shell | Stdin | IOPub | Heartbeat

subsection \<open>Messages\<close>

record JupyterMessageHeader =
  msg_id :: string
  msg_type :: string
  version :: string
  date :: string
  session :: string
  username :: string

text \<open>
  A parent header as JavaScript sees it. \<open>sendToSocket\<close> documents its parameter as
  "the parent message header (if any, {} if no parent)", and \<open>emitMessage\<close> tests the
  field for truthiness, so three values are told apart: a missing field (undefined or
  null, falsy), the empty object (truthy, with no \<open>msg_id\<close>), and a header.
\<close>

datatype parent_header_value = No_header | Empty_object | Header JupyterMessageHeader

record JupyterExecuteRequest =
  code :: string
  allow_stdin :: bool
  silent :: bool
  store_history :: bool
  user_expressions :: "(string \<times> string) list"
  stop_on_error :: bool

text \<open>
  The bodies of the messages the class builds, and \<open>Json\<close> for the content of an inbound
  message, which the class passes on without looking into it.
\<close>

datatype JupyterMessageSpec =
    Execute_request JupyterExecuteRequest
  | Input_reply string
  | Shutdown_request bool
  | Interrupt_request
  | Comm_open string string string
  | Comm_close string
  | Comm_msg string string
  | Json string

record JupyterMessage =
  buffers :: "string list"
  content :: JupyterMessageSpec
  header :: JupyterMessageHeader
  metadata :: "(string \<times> string) list"
  parent_header :: parent_header_value

text \<open>\<open>originId\<close> is \<open>None\<close> where JavaScript yields \<open>undefined\<close>.\<close>

record JupyterMessagePacket =
  packet_type :: string
  message :: JupyterMessageSpec
  msgId :: string
  msgType :: string
  when_ :: string
  originId :: "string option"
  socket :: JupyterSockets

subsection \<open>Kernel specification, session, sockets, terminals\<close>

record JupyterKernelSpec =
  display_name :: string
  language :: string
  argv :: "string list"
  env :: "(string \<times> string) list option"

text \<open>
  Modelled from the spec: \<^verbatim>\<open>JupyterSession.ts\<close> is not among the sources. The spec's
  Session Descriptor has a session id, a signing key, five ports, the two file paths and
  an optional process id; the class reads \<open>state.processId\<close>, \<open>state.logFile\<close>,
  \<open>state.connectionFile\<close>, \<open>sessionId\<close>, \<open>key\<close> and \<open>portsInUse\<close>, and calls
  \<open>dispose()\<close>, which removes the files.
\<close>

record JupyterSessionState =
  processId :: "nat option"
  logFile :: string
  connectionFile :: string
  ss_sessionId :: string
  ss_key :: string
  ss_ports :: "nat list"

record JupyterSession =
  state :: JupyterSessionState

definition sessionId :: "JupyterSession \<Rightarrow> string" where
  "sessionId s = ss_sessionId (state s)"

definition key :: "JupyterSession \<Rightarrow> string" where
  "key s = ss_key (state s)"

definition portsInUse :: "JupyterSession \<Rightarrow> nat list" where
  "portsInUse s = ss_ports (state s)"

text \<open>\<open>new JupyterSession(sessionState)\<close>.\<close>

definition new_JupyterSession :: "JupyterSessionState \<Rightarrow> JupyterSession" where
  "new_JupyterSession ss = \<lparr>state = ss\<rparr>"

text \<open>
  A \<open>JupyterSocket\<close> (its file is not among the sources): the title and ZeroMQ socket
  type given to its constructor, the identity set on it, whether a \<open>message\<close> listener
  is attached, and for the heartbeat socket whether the one-shot listener of the handshake
  is attached.
\<close>

record JupyterSocket =
  title :: string
  zmq_type :: string
  zmq_identity :: "string option"
  on_message :: bool
  once_message :: bool

definition new_JupyterSocket :: "string \<Rightarrow> string \<Rightarrow> JupyterSocket" where
  "new_JupyterSocket t z =
     \<lparr>title = t, zmq_type = z, zmq_identity = None, on_message = False, once_message = False\<rparr>"

record JupyterConnectionSpec =
  control_port :: nat
  shell_port :: nat
  stdin_port :: nat
  iopub_port :: nat
  hb_port :: nat

text \<open>
  A \<open>vscode.Terminal\<close>: its name, the value its \<open>processId\<close> promise resolves to, and
  its \<open>exitStatus\<close> (\<open>None\<close> while it runs, \<open>Some None\<close> when it ended with no exit code).
  Terminals are host objects that change under the class, so the state holds them in a
  table and the class holds their indices.
\<close>

record Terminal =
  name :: string
  terminal_processId :: "nat option"
  exitStatus :: "int option option"

type_synonym terminal_ref = nat
type_synonym timer_handle = nat
type_synonym promise_ref = nat

record Tail =
  tail_path :: string
  watching :: bool

record Date =
  toISOString :: string
  getUTCMilliseconds :: nat

subsection \<open>Errors, log lines, timers, effects\<close>

text \<open>
  \<open>TypeError\<close> is what JavaScript throws when a property of \<open>null\<close> or \<open>undefined\<close> is
  read (the non-null assertions \<open>this._shell!\<close> and \<open>this._session!\<close> check nothing at run
  time). \<open>Kernel_already st\<close> is \<open>new Error(`Kernel already '${status}'`)\<close>.
\<close>

datatype error = TypeError | Kernel_already RuntimeState | Host_error string

text \<open>The lines written to the output channel, with the values interpolated into them.\<close>

datatype log_line =
    Log_found_record string "nat option" nat
  | Log_no_terminal string JupyterSessionState
  | Log_connecting_terminal string string "nat option"
  | Log_failed_to_start string int
  | Log_exited string int
  | Log_connecting_kernel string "nat option"
  | Log_streaming string
  | Log_streaming_error string
  | Log_tail string string
  | Log_initial_heartbeat string
  | Log_heartbeat_check nat
  | Log_start_deferring string
  | Log_deferred_start string
  | Log_skip_deferred string RuntimeState
  | Log_start_ignoring string RuntimeState
  | Log_starting string string
  | Log_environment "(string \<times> string) list"
  | Log_writing_state string JupyterSessionState
  | Log_start_lsp string
  | Log_waiting_restart string
  | Log_recv string JupyterSockets JupyterMessage
  | Log_execute_failed string string string
  | Log_input_reply string string
  | Log_input_no_parent string string
  | Log_no_socket JupyterSockets
  | Log_send string string JupyterMessage
  | Log_send_err string string
  | Log_send_ok string
  | Log_send_heartbeat
  | Log_heartbeat_received int string
  | Log_kernel_ready string nat
  | Log_lsp_connected string

text \<open>What a timer set by the class does when it fires.\<close>

datatype timer_action =
    Deferred_start promise_ref
  | Reconnect_connect terminal_ref JupyterSessionState
  | Heartbeat_timeout
  | Next_heartbeat

record TerminalOptions =
  opt_name :: string
  shellPath :: "string option"
  shellArgs :: "string list"
  opt_env :: "(string \<times> string) list"
  opt_message :: string
  hideFromUser :: bool
  isTransient :: bool

datatype effect =
    Append_line log_line
  | Emit_status RuntimeState
  | Emit_message JupyterMessagePacket
  | Socket_send JupyterSockets JupyterMessage string
  | Heartbeat_hello
  | Socket_connect JupyterSockets nat
  | Socket_dispose JupyterSockets
  | Iopub_subscribe string
  | Create_session
  | Create_terminal TerminalOptions
  | Terminal_dispose terminal_ref
  | Session_dispose JupyterSession
  | Write_file string string
  | Tail_watch string
  | Tail_unwatch string
  | Find_available_port "nat list" nat
  | Lsp_connect nat
  | Promise_resolved promise_ref
  | Promise_rejected promise_ref error

subsection \<open>The supervisor's state\<close>

text \<open>
  What the class reads from its host and never writes: the \<open>positron.heartbeat\<close>
  setting, \<open>os.userInfo().username\<close>, \<open>positron.version\<close>, \<open>process.env\<close>, the
  successive results of \<open>uuidv4()\<close> and of \<open>new Date()\<close>, the parsed contents of the
  connection files (\<open>None\<close> where reading or parsing throws), and whether \<open>new Tail\<close>
  throws on a path.
\<close>

record Host =
  positron_heartbeat :: "nat option"
  os_username :: string
  positron_version :: string
  process_env :: "(string \<times> string) list"
  uuids :: "nat \<Rightarrow> string"
  clock :: "nat \<Rightarrow> Date"
  connection_files :: "string \<Rightarrow> JupyterConnectionSpec option"
  tail_throws :: "string \<Rightarrow> bool"

type_synonym ChildProcess = nat

text \<open>
  The fields \<open>m_x\<close> are the private fields \<open>_x\<close> of the class and its constructor
  parameters. Then come the callbacks the class has registered and the calls it is
  suspended in, the host state it reads and writes, and the effects so far.
\<close>

record JupyterKernel =
  m_spec :: JupyterKernelSpec
  m_runtimeId :: string
  m_lsp :: bool
  m_process :: "ChildProcess option"
  m_logTail :: "Tail option"
  m_status :: RuntimeState
  m_control :: "JupyterSocket option"
  m_shell :: "JupyterSocket option"
  m_stdin :: "JupyterSocket option"
  m_iopub :: "JupyterSocket option"
  m_heartbeat :: "JupyterSocket option"
  m_inputRequests :: "string \<rightharpoonup> JupyterMessageHeader"
  m_heartbeatTimer :: "timer_handle option"
  m_nextHeartbeat :: "timer_handle option"
  m_lastHeartbeat :: nat
  m_session :: "JupyterSession option"
  m_terminal :: "terminal_ref option"
  m_lspCommId :: "string option"
  status_callbacks :: "promise_ref list"
  exit_listeners :: "ChildProcess list"
  closeTerminal_listeners :: "terminal_ref list"
  openTerminal_listeners :: "(promise_ref \<times> JupyterSession) list"
  timers :: "(timer_handle \<times> nat \<times> timer_action) list"
  next_timer :: nat
  next_promise :: nat
  awaiting_session :: "promise_ref list"
  awaiting_processId :: "(promise_ref \<times> JupyterSession \<times> terminal_ref) list"
  awaiting_connect :: "promise_ref option list"
  awaiting_scan :: "(JupyterSessionState \<times> terminal_ref list) list"
  awaiting_port :: nat
  host :: Host
  uuid_count :: nat
  clock_count :: nat
  workspaceState :: "string \<rightharpoonup> JupyterSessionState"
  window_terminals :: "terminal_ref list"
  terminal_at :: "terminal_ref \<Rightarrow> Terminal"
  fs_existsSync :: "string \<Rightarrow> bool"
  effects :: "effect list"

subsection \<open>Host services\<close>

definition do_effect :: "effect \<Rightarrow> JupyterKernel \<Rightarrow> JupyterKernel" where
  "do_effect e k = k\<lparr>effects := effects k @ [e]\<rparr>"

text \<open>\<open>this._channel.appendLine(...)\<close>.\<close>

definition appendLine :: "log_line \<Rightarrow> JupyterKernel \<Rightarrow> JupyterKernel" where
  "appendLine l k = do_effect (Append_line l) k"

definition uuidv4 :: "JupyterKernel \<Rightarrow> string \<times> JupyterKernel" where
  "uuidv4 k = (uuids (host k) (uuid_count k), k\<lparr>uuid_count := Suc (uuid_count k)\<rparr>)"

definition new_Date :: "JupyterKernel \<Rightarrow> Date \<times> JupyterKernel" where
  "new_Date k = (clock (host k) (clock_count k), k\<lparr>clock_count := Suc (clock_count k)\<rparr>)"

text \<open>
  \<open>setTimeout(f, ms)\<close> enters a single-shot timer in the table and returns its handle;
  \<open>clearTimeout\<close> removes it. A timer that has fired is no longer in the table.
\<close>

definition setTimeout :: "timer_action \<Rightarrow> nat \<Rightarrow> JupyterKernel \<Rightarrow> timer_handle \<times> JupyterKernel" where
  "setTimeout a ms k =
     (next_timer k,
      k\<lparr>timers := timers k @ [(next_timer k, ms, a)], next_timer := Suc (next_timer k)\<rparr>)"

definition clearTimeout :: "timer_handle \<Rightarrow> JupyterKernel \<Rightarrow> JupyterKernel" where
  "clearTimeout h k = k\<lparr>timers := filter (\<lambda>t. fst t \<noteq> h) (timers k)\<rparr>"

text \<open>\<open>vscode.workspace.getConfiguration('positron').get('heartbeat', 30)\<close>.\<close>

definition heartbeat_seconds :: "JupyterKernel \<Rightarrow> nat" where
  "heartbeat_seconds k = (case positron_heartbeat (host k) of None \<Rightarrow> 30 | Some s \<Rightarrow> s)"

definition socket_of :: "JupyterSockets \<Rightarrow> JupyterKernel \<Rightarrow> JupyterSocket option" where
  "socket_of ch k =
     (case ch of
        Control \<Rightarrow> m_control k
      | Shell \<Rightarrow> m_shell k
      | Stdin \<Rightarrow> m_stdin k
      | IOPub \<Rightarrow> m_iopub k
      | Heartbeat \<Rightarrow> m_heartbeat k)"

subsection \<open>Sending (lines 786-839)\<close>

text \<open>
  A method that can throw returns the error, if any, beside the state it had reached.
  \<open>generateMessageHeader\<close> reads the clock, then \<open>this._session!.sessionId\<close>.
\<close>

definition generateMessageHeader ::
  "string \<Rightarrow> string \<Rightarrow> JupyterKernel \<Rightarrow> (error + JupyterMessageHeader) \<times> JupyterKernel" where
  "generateMessageHeader i t k =
     (case new_Date k of
        (d, k1) \<Rightarrow>
          (case m_session k1 of
             None \<Rightarrow> (Inl TypeError, k1)
           | Some s \<Rightarrow>
               (Inr \<lparr>msg_id = i, msg_type = t, version = ''5.0'', date = toISOString d,
                     session = sessionId s, username = os_username (host k1)\<rparr>, k1)))"

text \<open>
  \<open>sendToSocket\<close>: \<open>dest\<close> is the field the caller read (\<open>this._shell!\<close> and so on),
  given here by its channel. \<open>Socket_send dest msg key\<close> is
  \<open>dest.socket().send(serializeJupyterMessage(msg, this._session!.key), ...)\<close>.
\<close>

definition sendToSocket ::
  "string \<Rightarrow> string \<Rightarrow> JupyterSockets \<Rightarrow> parent_header_value \<Rightarrow> JupyterMessageSpec
     \<Rightarrow> JupyterKernel \<Rightarrow> error option \<times> JupyterKernel" where
  "sendToSocket i t dest parent body k =
     (case generateMessageHeader i t k of
        (Inl e, k1) \<Rightarrow> (Some e, k1)
      | (Inr h, k1) \<Rightarrow>
          (let msg = \<lparr>buffers = [], content = body, header = h, metadata = [],
                      parent_header = parent\<rparr>
           in case socket_of dest k1 of
                None \<Rightarrow> (Some TypeError, k1)
              | Some s \<Rightarrow>
                  (let k2 = appendLine (Log_send (msg_type (header msg)) (title s) msg) k1
                   in case m_session k2 of
                        None \<Rightarrow> (Some TypeError, k2)
                      | Some sess \<Rightarrow> (None, do_effect (Socket_send dest msg (key sess)) k2))))"

text \<open>The transport's completion callback of \<open>sendToSocket\<close> (lines 829-837).\<close>

definition sendToSocket_callback :: "string \<Rightarrow> string option \<Rightarrow> JupyterKernel \<Rightarrow> JupyterKernel" where
  "sendToSocket_callback t err k =
     (case err of
        Some e \<Rightarrow> appendLine (Log_send_err t e) k
      | None \<Rightarrow> appendLine (Log_send_ok t) k)"

definition send ::
  "string \<Rightarrow> string \<Rightarrow> JupyterSockets \<Rightarrow> JupyterMessageSpec \<Rightarrow> JupyterKernel
     \<Rightarrow> error option \<times> JupyterKernel" where
  "send i t dest body k = sendToSocket i t dest Empty_object body k"

subsection \<open>Comms (lines 481-543)\<close>

definition startLsp :: "string \<Rightarrow> JupyterKernel \<Rightarrow> error option \<times> JupyterKernel" where
  "startLsp clientAddress k =
     (let k1 = appendLine (Log_start_lsp clientAddress) k
      in case uuidv4 k1 of
           (c, k2) \<Rightarrow>
             (let k3 = k2\<lparr>m_lspCommId := Some c\<rparr>
              in case uuidv4 k3 of
                   (u, k4) \<Rightarrow> send u ''comm_open'' Shell (Comm_open ''lsp'' c clientAddress) k4))"

definition openComm :: "string \<Rightarrow> string \<Rightarrow> string \<Rightarrow> JupyterKernel \<Rightarrow> error option \<times> JupyterKernel" where
  "openComm targetName i data k =
     (case uuidv4 k of (u, k1) \<Rightarrow> send u ''comm_open'' Shell (Comm_open targetName i data) k1)"

definition closeComm :: "string \<Rightarrow> JupyterKernel \<Rightarrow> error option \<times> JupyterKernel" where
  "closeComm i k = (case uuidv4 k of (u, k1) \<Rightarrow> send u ''comm_close'' Shell (Comm_close i) k1)"

definition sendCommMessage :: "string \<Rightarrow> string \<Rightarrow> JupyterKernel \<Rightarrow> error option \<times> JupyterKernel" where
  "sendCommMessage i data k =
     (case uuidv4 k of (u, k1) \<Rightarrow> send u ''comm_msg'' Shell (Comm_msg i data) k1)"

subsection \<open>Disposal (lines 740-784)\<close>

definition dispose_socket :: "JupyterSockets \<Rightarrow> JupyterKernel \<Rightarrow> JupyterKernel" where
  "dispose_socket ch k =
     (case socket_of ch k of None \<Rightarrow> k | Some s \<Rightarrow> do_effect (Socket_dispose ch) k)"

definition disposeAllSockets :: "JupyterKernel \<Rightarrow> JupyterKernel" where
  "disposeAllSockets k =
     (let k1 = dispose_socket Control k;
          k2 = dispose_socket Shell k1;
          k3 = dispose_socket Stdin k2;
          k4 = dispose_socket Heartbeat k3;
          k5 = dispose_socket IOPub k4
      in k5\<lparr>m_control := None, m_shell := None, m_stdin := None, m_heartbeat := None,
             m_iopub := None\<rparr>)"

definition disposeHeartbeatTimers :: "JupyterKernel \<Rightarrow> JupyterKernel" where
  "disposeHeartbeatTimers k =
     (let k1 = (case m_heartbeatTimer k of
                  Some h \<Rightarrow> (clearTimeout h k)\<lparr>m_heartbeatTimer := None\<rparr>
                | None \<Rightarrow> k)
      in case m_nextHeartbeat k1 of
           Some h \<Rightarrow> (clearTimeout h k1)\<lparr>m_nextHeartbeat := None\<rparr>
         | None \<Rightarrow> k1)"

text \<open>\<open>if (this._logTail) { this._logTail.unwatch(); }\<close>\<close>

definition logTail_unwatch :: "JupyterKernel \<Rightarrow> JupyterKernel" where
  "logTail_unwatch k =
     (case m_logTail k of
        None \<Rightarrow> k
      | Some t \<Rightarrow> do_effect (Tail_unwatch (tail_path t)) (k\<lparr>m_logTail := Some (t\<lparr>watching := False\<rparr>)\<rparr>))"

text \<open>
  \<open>dispose\<close>. An empty string is falsy, so \<open>if (this._lspCommId)\<close> needs a non-empty id.
  When \<open>closeComm\<close> throws, the rest of the method does not run.
\<close>

definition dispose :: "JupyterKernel \<Rightarrow> error option \<times> JupyterKernel" where
  "dispose k =
     (case (case m_lspCommId k of
              Some c \<Rightarrow> if c \<noteq> [] then closeComm c k else (None, k)
            | None \<Rightarrow> (None, k)) of
        (Some e, k1) \<Rightarrow> (Some e, k1)
      | (None, k1) \<Rightarrow> (None, disposeAllSockets (disposeHeartbeatTimers (logTail_unwatch k1))))"

subsection \<open>Status changes (lines 886-924)\<close>

text \<open>
  \<open>onStatusChange\<close> is an async function: what it throws becomes a rejected promise that
  nobody handles, so only the state it reached remains. For \<open>Ready\<close> it runs up to
  \<open>await findAvailablePort(...)\<close>; \<open>onStatusChange_port\<close> below is the rest.
\<close>

definition onStatusChange :: "RuntimeState \<Rightarrow> JupyterKernel \<Rightarrow> JupyterKernel" where
  "onStatusChange st k =
     (if st = Exited then
        (let k1 = k\<lparr>workspaceState := (workspaceState k)(m_runtimeId k := None)\<rparr>;
             k2 = (case m_session k1 of
                     Some s \<Rightarrow> do_effect (Session_dispose s) k1
                   | None \<Rightarrow> k1);
             k3 = (case m_terminal k2 of
                     Some t \<Rightarrow>
                       if exitStatus (terminal_at k2 t) = None
                       then do_effect (Terminal_dispose t) k2 else k2
                   | None \<Rightarrow> k2)
         in snd (dispose k3))
      else if st = Ready then
        (if m_lsp k then
           (case m_session k of
              Some s \<Rightarrow>
                (do_effect (Find_available_port (portsInUse s) 25) k)
                  \<lparr>awaiting_port := Suc (awaiting_port k)\<rparr>
            | None \<Rightarrow> k)
         else k)
      else k)"

text \<open>
  The \<open>callback\<close> that a deferred \<open>start()\<close> subscribes to \<open>status\<close> (lines 337-365);
  \<open>p\<close> is the promise that \<open>start()\<close> returned.
\<close>

definition start_callback :: "promise_ref \<Rightarrow> RuntimeState \<Rightarrow> JupyterKernel \<Rightarrow> JupyterKernel" where
  "start_callback p st k =
     (if st = Initializing then k
      else
        (let k1 = k\<lparr>status_callbacks := remove1 p (status_callbacks k)\<rparr>
         in if st = Uninitialized then
              snd (setTimeout (Deferred_start p) 0
                     (appendLine (Log_deferred_start (display_name (m_spec k1))) k1))
            else
              do_effect (Promise_rejected p (Kernel_already st))
                (appendLine (Log_skip_deferred (display_name (m_spec k1)) st) k1)))"

text \<open>
  \<open>setStatus\<close> emits before it assigns: the listeners run while \<open>_status\<close> still holds the
  old state. \<open>Emit_status\<close> stands for the call of \<open>emit\<close>, which also reaches the
  listeners of other components; of the class's own listeners the one registered in the
  constructor runs first, then the deferred starts subscribed when \<open>emit\<close> was called.
\<close>

definition setStatus :: "RuntimeState \<Rightarrow> JupyterKernel \<Rightarrow> JupyterKernel" where
  "setStatus st k =
     (let k1 = do_effect (Emit_status st) k;
          k2 = onStatusChange st k1;
          k3 = fold (\<lambda>p. start_callback p st) (status_callbacks k) k2
      in k3\<lparr>m_status := st\<rparr>)"

subsection \<open>Heartbeat (lines 844-879)\<close>

text \<open>
  \<open>_lastHeartbeat\<close> receives \<open>new Date().getUTCMilliseconds()\<close>, the millisecond field of
  the clock reading.
\<close>

definition heartbeat :: "JupyterKernel \<Rightarrow> JupyterKernel" where
  "heartbeat k =
     (let seconds = heartbeat_seconds k
      in case new_Date k of
           (d, k1) \<Rightarrow>
             (let k2 = k1\<lparr>m_lastHeartbeat := getUTCMilliseconds d\<rparr>;
                  k3 = appendLine Log_send_heartbeat k2;
                  k4 = (case m_heartbeat k3 of
                          Some s \<Rightarrow> do_effect Heartbeat_hello k3
                        | None \<Rightarrow> k3)
              in case setTimeout Heartbeat_timeout (seconds * 1000) k4 of
                   (h, k5) \<Rightarrow> k5\<lparr>m_heartbeatTimer := Some h\<rparr>))"

definition onHeartbeat :: "string \<Rightarrow> JupyterKernel \<Rightarrow> JupyterKernel" where
  "onHeartbeat msg k =
     (let k1 = (case m_heartbeatTimer k of
                  Some h \<Rightarrow> clearTimeout h k
                | None \<Rightarrow> k);
          k2 = (if m_lastHeartbeat k1 \<noteq> 0 then
                  (case new_Date k1 of
                     (now, k') \<Rightarrow>
                       appendLine
                         (Log_heartbeat_received
                            (int (getUTCMilliseconds now) - int (m_lastHeartbeat k')) msg) k')
                else k1);
          seconds = heartbeat_seconds k2
      in case setTimeout Next_heartbeat (seconds * 1000) k2 of
           (h, k3) \<Rightarrow> k3\<lparr>m_nextHeartbeat := Some h\<rparr>)"

subsection \<open>Inbound messages (lines 297-321, 616-628)\<close>

definition emitMessage :: "JupyterSockets \<Rightarrow> JupyterMessage \<Rightarrow> JupyterKernel \<Rightarrow> JupyterKernel" where
  "emitMessage sock msg k =
     (let packet =
            \<lparr>packet_type = ''jupyter-message'',
             message = content msg,
             msgId = msg_id (header msg),
             msgType = msg_type (header msg),
             when_ = date (header msg),
             originId = (case parent_header msg of
                           No_header \<Rightarrow> Some []
                         | Empty_object \<Rightarrow> None
                         | Header h \<Rightarrow> Some (msg_id h)),
             socket = sock\<rparr>;
          k1 = appendLine (Log_recv (msg_type (header msg)) sock msg) k
      in do_effect (Emit_message packet) k1)"

text \<open>
  The \<open>message\<close> listeners of the iopub, shell and stdin sockets. \<open>decoded\<close> is what
  \<open>deserializeJupyterMessage\<close> returned for the frames: \<open>None\<close> is its \<open>null\<close>.
\<close>

definition iopub_onMessage :: "JupyterMessage option \<Rightarrow> JupyterKernel \<Rightarrow> JupyterKernel" where
  "iopub_onMessage decoded k =
     (case decoded of None \<Rightarrow> k | Some msg \<Rightarrow> emitMessage IOPub msg k)"

definition shell_onMessage :: "JupyterMessage option \<Rightarrow> JupyterKernel \<Rightarrow> JupyterKernel" where
  "shell_onMessage decoded k =
     (case decoded of None \<Rightarrow> k | Some msg \<Rightarrow> emitMessage Shell msg k)"

definition stdin_onMessage :: "JupyterMessage option \<Rightarrow> JupyterKernel \<Rightarrow> JupyterKernel" where
  "stdin_onMessage decoded k =
     (case decoded of
        None \<Rightarrow> k
      | Some msg \<Rightarrow>
          (let k1 = (if msg_type (header msg) = ''input_request''
                     then k\<lparr>m_inputRequests :=
                              (m_inputRequests k)(msg_id (header msg) \<mapsto> header msg)\<rparr>
                     else k)
           in emitMessage Stdin msg k1))"

subsection \<open>Connecting (lines 200-322)\<close>

definition streamLogFileToChannel :: "string \<Rightarrow> JupyterKernel \<Rightarrow> JupyterKernel" where
  "streamLogFileToChannel logFilePath k =
     (let k1 = appendLine (Log_streaming logFilePath) k
      in if tail_throws (host k1) logFilePath
         then appendLine (Log_streaming_error logFilePath) k1
         else do_effect (Tail_watch logFilePath)
                (k1\<lparr>m_logTail := Some \<lparr>tail_path = logFilePath, watching = True\<rparr>\<rparr>))"

text \<open>The \<open>line\<close> and \<open>error\<close> listeners of the log tail.\<close>

definition logTail_onLine :: "string \<Rightarrow> JupyterKernel \<Rightarrow> JupyterKernel" where
  "logTail_onLine data k = appendLine (Log_tail (language (m_spec k)) data) k"

text \<open>
  \<open>connect\<close> up to the promise it returns: the five sockets replace the fields, the
  connection file is read, and each socket is told to connect. It returns the error when
  reading or parsing the file throws.
\<close>

definition connect :: "string \<Rightarrow> JupyterKernel \<Rightarrow> error option \<times> JupyterKernel" where
  "connect connectionJsonPath k =
     (let shellId = ''positron-shell'';
          k1 = k\<lparr>m_control := Some (new_JupyterSocket ''Control'' ''dealer''),
                 m_shell := Some ((new_JupyterSocket ''Shell'' ''dealer'')
                                    \<lparr>zmq_identity := Some shellId\<rparr>),
                 m_stdin := Some ((new_JupyterSocket ''Stdin'' ''dealer'')
                                    \<lparr>zmq_identity := Some shellId\<rparr>),
                 m_iopub := Some (new_JupyterSocket ''I/O'' ''sub''),
                 m_heartbeat := Some (new_JupyterSocket ''Heartbeat'' ''req'')\<rparr>
      in case connection_files (host k1) connectionJsonPath of
           None \<Rightarrow> (Some (Host_error connectionJsonPath), k1)
         | Some connectionSpec \<Rightarrow>
             (None,
              do_effect (Socket_connect Heartbeat (hb_port connectionSpec))
               (do_effect (Socket_connect IOPub (iopub_port connectionSpec))
                 (do_effect (Socket_connect Stdin (stdin_port connectionSpec))
                   (do_effect (Socket_connect Shell (shell_port connectionSpec))
                     (do_effect (Socket_connect Control (control_port connectionSpec)) k1))))))"

text \<open>
  \<open>connectToTerminal\<close> up to \<open>await this.connect(...)\<close>. \<open>p\<close> is the promise of the
  \<open>start()\<close> that called it, \<open>None\<close> when \<open>reconnect\<close> did. The listener on
  \<open>onDidCloseTerminal\<close> is entered with the terminal it captured.
\<close>

definition connectToTerminal ::
  "terminal_ref \<Rightarrow> JupyterSession \<Rightarrow> promise_ref option \<Rightarrow> JupyterKernel \<Rightarrow> JupyterKernel" where
  "connectToTerminal terminal sess p k =
     (let k1 = k\<lparr>m_session := Some sess, m_terminal := Some terminal,
                 closeTerminal_listeners := closeTerminal_listeners k @ [terminal]\<rparr>;
          k2 = appendLine
                 (Log_connecting_kernel (display_name (m_spec k1)) (processId (state sess))) k1;
          logFilePath = logFile (state sess);
          k3 = (if fs_existsSync k2 logFilePath
                then streamLogFileToChannel logFilePath k2 else k2)
      in case connect (connectionFile (state sess)) k3 of
           (Some e, k4) \<Rightarrow>
             (case p of Some q \<Rightarrow> do_effect (Promise_rejected q e) k4 | None \<Rightarrow> k4)
         | (None, k4) \<Rightarrow> k4\<lparr>awaiting_connect := awaiting_connect k4 @ [p]\<rparr>)"

text \<open>The listener on \<open>onDidCloseTerminal\<close> (lines 243-267), for the terminal it captured.\<close>

definition connectToTerminal_onDidCloseTerminal ::
  "terminal_ref \<Rightarrow> terminal_ref \<Rightarrow> JupyterKernel \<Rightarrow> JupyterKernel" where
  "connectToTerminal_onDidCloseTerminal terminal closedTerminal k =
     (if name (terminal_at k closedTerminal) \<noteq> display_name (m_spec k) then k
      else
        (case exitStatus (terminal_at k terminal) of
           None \<Rightarrow> k
         | Some None \<Rightarrow> k
         | Some (Some c) \<Rightarrow>
             (let k1 = (if m_status k = Starting
                        then appendLine (Log_failed_to_start (display_name (m_spec k)) c) k
                        else appendLine (Log_exited (display_name (m_spec k)) c)
                               (setStatus Exited k))
              in k1\<lparr>closeTerminal_listeners := remove1 terminal (closeTerminal_listeners k1)\<rparr>)))"

text \<open>The one-shot listener of the heartbeat handshake (lines 283-294).\<close>

definition connectToTerminal_initial_heartbeat :: "string \<Rightarrow> JupyterKernel \<Rightarrow> JupyterKernel" where
  "connectToTerminal_initial_heartbeat msg k =
     (let k1 = appendLine (Log_initial_heartbeat msg) k;
          k2 = setStatus Ready k1;
          seconds = heartbeat_seconds k2;
          k3 = appendLine (Log_heartbeat_check seconds) k2;
          k4 = heartbeat k3
      in case m_heartbeat k4 of
           Some s \<Rightarrow> k4\<lparr>m_heartbeat := Some (s\<lparr>on_message := True\<rparr>)\<rparr>
         | None \<Rightarrow> k4)"

text \<open>\<open>connectToTerminal\<close> after \<open>await this.connect(...)\<close> (lines 283-321).\<close>

definition connectToTerminal_connected :: "promise_ref option \<Rightarrow> JupyterKernel \<Rightarrow> JupyterKernel" where
  "connectToTerminal_connected p k =
     (let k0 = k\<lparr>awaiting_connect := remove1 p (awaiting_connect k)\<rparr>;
          k1 = (case m_heartbeat k0 of
                  Some s \<Rightarrow>
                    do_effect Heartbeat_hello (k0\<lparr>m_heartbeat := Some (s\<lparr>once_message := True\<rparr>)\<rparr>)
                | None \<Rightarrow> k0);
          k2 = (case m_iopub k1 of
                  Some s \<Rightarrow>
                    (do_effect (Iopub_subscribe []) k1)\<lparr>m_iopub := Some (s\<lparr>on_message := True\<rparr>)\<rparr>
                | None \<Rightarrow> k1);
          k3 = (case m_shell k2 of
                  Some s \<Rightarrow> k2\<lparr>m_shell := Some (s\<lparr>on_message := True\<rparr>)\<rparr>
                | None \<Rightarrow> k2);
          k4 = (case m_stdin k3 of
                  Some s \<Rightarrow> k3\<lparr>m_stdin := Some (s\<lparr>on_message := True\<rparr>)\<rparr>
                | None \<Rightarrow> k3)
      in case p of Some q \<Rightarrow> do_effect (Promise_resolved q) k4 | None \<Rightarrow> k4)"

text \<open>The promise of \<open>connect\<close> rejects: \<open>connectToTerminal\<close> rejects with the error.\<close>

definition connectToTerminal_connect_failed ::
  "promise_ref option \<Rightarrow> error \<Rightarrow> JupyterKernel \<Rightarrow> JupyterKernel" where
  "connectToTerminal_connect_failed p e k =
     (let k0 = k\<lparr>awaiting_connect := remove1 p (awaiting_connect k)\<rparr>
      in case p of Some q \<Rightarrow> do_effect (Promise_rejected q e) k0 | None \<Rightarrow> k0)"

text \<open>
  A message arrives on the heartbeat socket: the listeners attached to the socket when it
  arrives run, the one-shot listener first (it was attached first) and is detached.
\<close>

definition heartbeat_onMessage :: "string \<Rightarrow> JupyterKernel \<Rightarrow> JupyterKernel" where
  "heartbeat_onMessage msg k =
     (case m_heartbeat k of
        None \<Rightarrow> k
      | Some s \<Rightarrow>
          (let k1 = (if once_message s
                     then connectToTerminal_initial_heartbeat msg
                            (k\<lparr>m_heartbeat := Some (s\<lparr>once_message := False\<rparr>)\<rparr>)
                     else k)
           in if on_message s then onHeartbeat msg k1 else k1))"

subsection \<open>Starting (lines 327-470)\<close>

text \<open>
  \<open>start_body p\<close> is the body of \<open>start()\<close> up to its first suspension, where \<open>p\<close> is the
  promise the call returns. While \<open>Initializing\<close> the promise stays pending and the
  callback is subscribed; from a state that is neither \<open>Uninitialized\<close> nor \<open>Exited\<close>
  the function returns, which resolves the promise; otherwise the call is suspended at
  \<open>await createJupyterSession()\<close>.
\<close>

definition start_body :: "promise_ref \<Rightarrow> JupyterKernel \<Rightarrow> JupyterKernel" where
  "start_body p k =
     (if m_status k = Initializing then
        (let k1 = appendLine (Log_start_deferring (display_name (m_spec k))) k
         in k1\<lparr>status_callbacks := status_callbacks k1 @ [p]\<rparr>)
      else if m_status k \<noteq> Uninitialized \<and> m_status k \<noteq> Exited then
        (let k1 = appendLine (Log_start_ignoring (display_name (m_spec k)) (m_status k)) k
         in do_effect (Promise_resolved p) k1)
      else
        (let k1 = setStatus Initializing k;
             k2 = do_effect Create_session k1
         in k2\<lparr>awaiting_session := awaiting_session k2 @ [p]\<rparr>))"

text \<open>A call of \<open>start()\<close>: the promise it returns, and the state.\<close>

definition start :: "JupyterKernel \<Rightarrow> promise_ref \<times> JupyterKernel" where
  "start k = (next_promise k, start_body (next_promise k) (k\<lparr>next_promise := Suc (next_promise k)\<rparr>))"

text \<open>
  The argument template (lines 391-407): each \<open>{log_file}\<close> writes the empty log file.
\<close>

fun start_args :: "string \<Rightarrow> string \<Rightarrow> string list \<Rightarrow> JupyterKernel \<Rightarrow> string list \<times> JupyterKernel" where
  "start_args connnectionFile lf [] k = ([], k)"
| "start_args connnectionFile lf (arg # rest) k =
     (if arg = ''{connection_file}'' then
        (case start_args connnectionFile lf rest k of (as, k') \<Rightarrow> (connnectionFile # as, k'))
      else if arg = ''{log_file}'' then
        (let k1 = (do_effect (Write_file lf []) k)\<lparr>fs_existsSync := (fs_existsSync k)(lf := True)\<rparr>
         in case start_args connnectionFile lf rest k1 of (as, k') \<Rightarrow> (lf # as, k'))
      else
        (case start_args connnectionFile lf rest k of (as, k') \<Rightarrow> (arg # as, k')))"

text \<open>\<open>Array.prototype.join\<close>.\<close>

fun join :: "string \<Rightarrow> string list \<Rightarrow> string" where
  "join sep [] = []"
| "join sep [x] = x"
| "join sep (x # y # ys) = x @ sep @ join sep (y # ys)"

text \<open>
  \<open>start()\<close> after \<open>createJupyterSession()\<close> has resolved with \<open>sess\<close> (lines 387-469).
  The environment is an association list in which a later entry overrides an earlier one,
  as \<open>Object.assign\<close> does.
\<close>

definition start_after_session :: "promise_ref \<Rightarrow> JupyterSession \<Rightarrow> JupyterKernel \<Rightarrow> JupyterKernel" where
  "start_after_session p sess k =
     (let k0 = k\<lparr>awaiting_session := remove1 p (awaiting_session k)\<rparr>
      in case start_args (connectionFile (state sess)) (logFile (state sess)) (argv (m_spec k0)) k0 of
           (args, k1) \<Rightarrow>
             (let command = join '' '' args;
                  environment =
                    (''POSITRON_VERSION'', positron_version (host k1)) # process_env (host k1)
                      @ (case env (m_spec k1) of Some e \<Rightarrow> e | None \<Rightarrow> []);
                  k2 = setStatus Starting k1;
                  k3 = appendLine (Log_starting (display_name (m_spec k2)) command) k2;
                  k4 = (case env (m_spec k3) of
                          Some e \<Rightarrow> appendLine (Log_environment e) k3
                        | None \<Rightarrow> k3);
                  k5 = do_effect
                         (Create_terminal
                            \<lparr>opt_name = display_name (m_spec k4),
                             shellPath = (case args of [] \<Rightarrow> None | a # _ \<Rightarrow> Some a),
                             shellArgs = tl args,
                             opt_env = environment,
                             opt_message = ''** '' @ display_name (m_spec k4) @ '' **'',
                             hideFromUser = False,
                             isTransient = False\<rparr>) k4
              in k5\<lparr>openTerminal_listeners := openTerminal_listeners k5 @ [(p, sess)]\<rparr>))"

text \<open>\<open>createJupyterSession()\<close> rejects: so does the promise of \<open>start()\<close>.\<close>

definition start_session_failed :: "promise_ref \<Rightarrow> error \<Rightarrow> JupyterKernel \<Rightarrow> JupyterKernel" where
  "start_session_failed p e k =
     do_effect (Promise_rejected p e) (k\<lparr>awaiting_session := remove1 p (awaiting_session k)\<rparr>)"

text \<open>
  A terminal opens: every listener registered on \<open>onDidOpenTerminal\<close> compares its name
  and, on a match, waits for its process id (line 444).
\<close>

definition start_onDidOpenTerminal :: "terminal_ref \<Rightarrow> JupyterKernel \<Rightarrow> JupyterKernel" where
  "start_onDidOpenTerminal openedTerminal k =
     fold (\<lambda>l k'. if name (terminal_at k' openedTerminal) = display_name (m_spec k')
                  then k'\<lparr>awaiting_processId :=
                            awaiting_processId k' @ [(fst l, snd l, openedTerminal)]\<rparr>
                  else k')
          (openTerminal_listeners k) k"

text \<open>
  The process id of the opened terminal is known (lines 444-466). \<open>if (pid)\<close> needs a
  defined process id other than 0.
\<close>

definition start_processId_then ::
  "promise_ref \<Rightarrow> JupyterSession \<Rightarrow> terminal_ref \<Rightarrow> JupyterKernel \<Rightarrow> JupyterKernel" where
  "start_processId_then p sess openedTerminal k =
     (let k0 = k\<lparr>awaiting_processId := remove1 (p, sess, openedTerminal) (awaiting_processId k)\<rparr>
      in case terminal_processId (terminal_at k0 openedTerminal) of
           None \<Rightarrow> k0
         | Some pid \<Rightarrow>
             if pid = 0 then k0
             else
               (let sess' = sess\<lparr>state := (state sess)\<lparr>processId := Some pid\<rparr>\<rparr>;
                    k1 = appendLine (Log_writing_state (m_runtimeId k0) (state sess')) k0;
                    k2 = k1\<lparr>workspaceState := (workspaceState k1)(m_runtimeId k1 \<mapsto> state sess')\<rparr>;
                    k3 = k2\<lparr>openTerminal_listeners := remove1 (p, sess) (openTerminal_listeners k2)\<rparr>
                in connectToTerminal openedTerminal sess' (Some p) k3))"

subsection \<open>Reconnecting and construction (lines 81-189)\<close>

text \<open>
  \<open>reconnect\<close> up to \<open>Promise.all\<close>: the terminals open at that moment are remembered
  with the saved session state.
\<close>

definition reconnect :: "JupyterSessionState \<Rightarrow> JupyterKernel \<Rightarrow> JupyterKernel" where
  "reconnect sessionState k =
     (let k1 = setStatus Initializing k;
          allTerminals = window_terminals k1;
          k2 = appendLine
                 (Log_found_record (display_name (m_spec k1)) (processId sessionState)
                    (length allTerminals)) k1
      in k2\<lparr>awaiting_scan := awaiting_scan k2 @ [(sessionState, allTerminals)]\<rparr>)"

text \<open>The callback on one terminal's process id (lines 146-154).\<close>

definition reconnect_processId_then ::
  "JupyterSessionState \<Rightarrow> terminal_ref \<Rightarrow> JupyterKernel \<Rightarrow> JupyterKernel" where
  "reconnect_processId_then sessionState terminal k =
     (if name (terminal_at k terminal) = display_name (m_spec k)
         \<and> terminal_processId (terminal_at k terminal) \<noteq> processId sessionState
      then do_effect (Terminal_dispose terminal) k else k)"

text \<open>
  All process ids are known: the callbacks of the terminals run in their order, then the
  \<open>then\<close> of \<open>Promise.all\<close> (lines 156-188).
\<close>

definition reconnect_then ::
  "JupyterSessionState \<Rightarrow> terminal_ref list \<Rightarrow> JupyterKernel \<Rightarrow> JupyterKernel" where
  "reconnect_then sessionState allTerminals k =
     (let k0 = k\<lparr>awaiting_scan := remove1 (sessionState, allTerminals) (awaiting_scan k)\<rparr>;
          k1 = fold (reconnect_processId_then sessionState) allTerminals k0;
          terminals = filter (\<lambda>t. terminal_processId (terminal_at k1 t) = processId sessionState)
                        allTerminals
      in case terminals of
           [] \<Rightarrow>
             (let k2 = appendLine (Log_no_terminal (m_runtimeId k1) sessionState) k1;
                  k3 = k2\<lparr>workspaceState := (workspaceState k2)(m_runtimeId k2 := None)\<rparr>
              in setStatus Uninitialized k3)
         | terminal # _ \<Rightarrow>
             (let k2 = appendLine
                         (Log_connecting_terminal (language (m_spec k1))
                            (name (terminal_at k1 terminal)) (processId sessionState)) k1
              in snd (setTimeout (Reconnect_connect terminal sessionState) 0 k2)))"

text \<open>
  The constructor, given the host the supervisor is created in: the workspace storage of
  the extension context, the open terminals and the file system.
\<close>

definition JupyterKernel_new ::
  "Host \<Rightarrow> (string \<rightharpoonup> JupyterSessionState) \<Rightarrow> terminal_ref list \<Rightarrow> (terminal_ref \<Rightarrow> Terminal)
     \<Rightarrow> (string \<Rightarrow> bool) \<Rightarrow> JupyterKernelSpec \<Rightarrow> string \<Rightarrow> bool \<Rightarrow> JupyterKernel" where
  "JupyterKernel_new h store open_terminals terminal_objects files kspec runtimeId lsp =
     (let k = \<lparr>m_spec = kspec, m_runtimeId = runtimeId, m_lsp = lsp,
                m_process = None, m_logTail = None, m_status = Uninitialized,
                m_control = None, m_shell = None, m_stdin = None, m_iopub = None,
                m_heartbeat = None, m_inputRequests = Map.empty,
                m_heartbeatTimer = None, m_nextHeartbeat = None, m_lastHeartbeat = 0,
                m_session = None, m_terminal = None, m_lspCommId = None,
                status_callbacks = [], exit_listeners = [], closeTerminal_listeners = [],
                openTerminal_listeners = [], timers = [], next_timer = 0, next_promise = 0,
                awaiting_session = [], awaiting_processId = [], awaiting_connect = [],
                awaiting_scan = [], awaiting_port = 0,
                host = h, uuid_count = 0, clock_count = 0,
                workspaceState = store, window_terminals = open_terminals,
                terminal_at = terminal_objects, fs_existsSync = files, effects = []\<rparr>
      in case workspaceState k (m_runtimeId k) of
           Some sessionState \<Rightarrow> reconnect sessionState k
         | None \<Rightarrow> k)"

subsection \<open>Timers\<close>

text \<open>
  A timer of the table fires: it leaves the table and its callback runs. A deferred
  \<open>start()\<close> (line 356) runs \<open>start()\<close> again and settles the first promise as the
  second is settled, so the body runs on the same promise.
\<close>

definition timer_fires :: "timer_handle \<Rightarrow> JupyterKernel \<Rightarrow> JupyterKernel" where
  "timer_fires h k =
     (case find (\<lambda>t. fst t = h) (timers k) of
        None \<Rightarrow> k
      | Some t \<Rightarrow>
          (let k1 = clearTimeout h k
           in case snd (snd t) of
                Deferred_start p \<Rightarrow> start_body p k1
              | Reconnect_connect terminal sessionState \<Rightarrow>
                  connectToTerminal terminal (new_JupyterSession sessionState) None
                    (setStatus Starting k1)
              | Heartbeat_timeout \<Rightarrow> setStatus Offline k1
              | Next_heartbeat \<Rightarrow> heartbeat k1))"

subsection \<open>Requests (lines 575-734)\<close>

definition shutdown :: "bool \<Rightarrow> JupyterKernel \<Rightarrow> error option \<times> JupyterKernel" where
  "shutdown restart_flag k =
     (let k1 = setStatus Exiting k
      in case uuidv4 k1 of
           (u, k2) \<Rightarrow> send u ''shutdown_request'' Control (Shutdown_request restart_flag) k2)"

text \<open>
  \<open>restart\<close>: \<open>this._process?.once('exit', ...)\<close> registers the listener only when
  \<open>_process\<close> is not null.
\<close>

definition restart :: "JupyterKernel \<Rightarrow> error option \<times> JupyterKernel" where
  "restart k =
     (let k1 = setStatus Exiting k
      in case shutdown True k1 of
           (Some e, k2) \<Rightarrow> (Some e, k2)
         | (None, k2) \<Rightarrow>
             (case m_process k2 of
                None \<Rightarrow> (None, k2)
              | Some pr \<Rightarrow> (None, k2\<lparr>exit_listeners := exit_listeners k2 @ [pr]\<rparr>)))"

text \<open>The \<open>exit\<close> listener that \<open>restart\<close> registers, when the process exits.\<close>

definition restart_onExit :: "JupyterKernel \<Rightarrow> JupyterKernel" where
  "restart_onExit k =
     snd (start (appendLine (Log_waiting_restart (display_name (m_spec k))) k))"

definition process_exit :: "ChildProcess \<Rightarrow> JupyterKernel \<Rightarrow> JupyterKernel" where
  "process_exit pr k =
     fold (\<lambda>l k'. if l = pr then restart_onExit k' else k') (exit_listeners k)
       (k\<lparr>exit_listeners := filter (\<lambda>l. l \<noteq> pr) (exit_listeners k)\<rparr>)"

definition interrupt :: "JupyterKernel \<Rightarrow> error option \<times> JupyterKernel" where
  "interrupt k =
     (let k1 = setStatus Interrupting k
      in case uuidv4 k1 of
           (u, k2) \<Rightarrow> send u ''interrupt_request'' Control Interrupt_request k2)"

text \<open>
  \<open>execute\<close>. What \<open>send\<close> throws before it returns its promise leaves \<open>execute\<close>;
  \<open>execute_catch\<close> is the handler of a promise that rejects later.
\<close>

definition execute ::
  "string \<Rightarrow> string \<Rightarrow> RuntimeCodeExecutionMode \<Rightarrow> RuntimeErrorBehavior \<Rightarrow> JupyterKernel
     \<Rightarrow> error option \<times> JupyterKernel" where
  "execute c i mode errorBehavior k =
     (let msg = \<lparr>code = c,
                 allow_stdin = (mode \<noteq> Silent),
                 silent = (mode = Silent),
                 store_history = (mode = Interactive),
                 user_expressions = [],
                 stop_on_error = (errorBehavior = Stop)\<rparr>
      in send i ''execute_request'' Shell (Execute_request msg) k)"

definition execute_catch :: "string \<Rightarrow> string \<Rightarrow> string \<Rightarrow> JupyterKernel \<Rightarrow> JupyterKernel" where
  "execute_catch c i err k = appendLine (Log_execute_failed c i err) k"

definition replyToPrompt :: "string \<Rightarrow> string \<Rightarrow> JupyterKernel \<Rightarrow> error option \<times> JupyterKernel" where
  "replyToPrompt i v k =
     (let msg = Input_reply v
      in case m_inputRequests k i of
           Some parent \<Rightarrow>
             (let k1 = appendLine (Log_input_reply i v) k
              in case uuidv4 k1 of
                   (u, k2) \<Rightarrow>
                     (case sendToSocket u ''input_reply'' Stdin (Header parent) msg k2 of
                        (Some e, k3) \<Rightarrow> (Some e, k3)
                      | (None, k3) \<Rightarrow>
                          (None, k3\<lparr>m_inputRequests := (m_inputRequests k3)(i := None)\<rparr>)))
         | None \<Rightarrow>
             (let k1 = appendLine (Log_input_no_parent i v) k
              in case uuidv4 k1 of
                   (u, k2) \<Rightarrow> send u ''input_reply'' Stdin msg k2))"

definition sendMessage :: "JupyterMessagePacket \<Rightarrow> JupyterKernel \<Rightarrow> error option \<times> JupyterKernel" where
  "sendMessage packet k =
     (case socket_of (socket packet) k of
        None \<Rightarrow> (None, appendLine (Log_no_socket (socket packet)) k)
      | Some s \<Rightarrow> send (msgId packet) (msgType packet) (socket packet) (message packet) k)"

definition displayName :: "JupyterKernel \<Rightarrow> string" where
  "displayName k = display_name (m_spec k)"

definition status :: "JupyterKernel \<Rightarrow> RuntimeState" where
  "status k = m_status k"

subsection \<open>The language server comm (lines 913-922)\<close>

text \<open>The decimal digits of a port number, for \<open>`127.0.0.1:${port}`\<close>.\<close>

fun show_nat :: "nat \<Rightarrow> string" where
  "show_nat n =
     (if n < 10 then [char_of (48 + n)]
      else show_nat (n div 10) @ [char_of (48 + n mod 10)])"

declare show_nat.simps [simp del]

text \<open>
  \<open>onStatusChange\<close> for \<open>Ready\<close> after \<open>findAvailablePort\<close> has resolved with \<open>port\<close>,
  and the callback on the promise that \<open>this._lsp(port)\<close> returns.
\<close>

definition onStatusChange_port :: "nat \<Rightarrow> JupyterKernel \<Rightarrow> JupyterKernel" where
  "onStatusChange_port port k =
     (let k0 = k\<lparr>awaiting_port := awaiting_port k - 1\<rparr>;
          k1 = appendLine (Log_kernel_ready (display_name (m_spec k0)) port) k0
      in case startLsp (''127.0.0.1:'' @ show_nat port) k1 of
           (Some e, k2) \<Rightarrow> k2
         | (None, k2) \<Rightarrow> do_effect (Lsp_connect port) k2)"

definition onStatusChange_lsp_connected :: "JupyterKernel \<Rightarrow> JupyterKernel" where
  "onStatusChange_lsp_connected k = appendLine (Log_lsp_connected (display_name (m_spec k))) k"

subsection \<open>The event loop\<close>

text \<open>
  What can happen to a supervisor: a call of one of its public methods, the completion of
  an operation it is suspended in, the firing of one of its timers, an event of a host
  object it listens to, or a change of the host's terminals.
\<close>

datatype event =
    Call_start
  | Call_restart
  | Call_shutdown bool
  | Call_interrupt
  | Call_execute string string RuntimeCodeExecutionMode RuntimeErrorBehavior
  | Call_replyToPrompt string string
  | Call_sendMessage JupyterMessagePacket
  | Call_dispose
  | Call_startLsp string
  | Call_openComm string string string
  | Call_closeComm string
  | Call_sendCommMessage string string
  | Session_created promise_ref JupyterSession
  | Session_failed promise_ref error
  | Terminal_opened terminal_ref
  | ProcessId_resolved promise_ref JupyterSession terminal_ref
  | Terminal_closed terminal_ref
  | Sockets_connected "promise_ref option"
  | Sockets_failed "promise_ref option" error
  | Scan_resolved JupyterSessionState "terminal_ref list"
  | Timer_fired timer_handle
  | Heartbeat_reply string
  | Iopub_frames "JupyterMessage option"
  | Shell_frames "JupyterMessage option"
  | Stdin_frames "JupyterMessage option"
  | Port_found nat
  | Lsp_connected
  | Process_exited ChildProcess
  | Send_completed string "string option"
  | Execute_failed string string string
  | Tail_line string
  | Terminal_changed terminal_ref Terminal
  | Window_changed "terminal_ref list"

text \<open>Whether a \<open>message\<close> listener is attached to a socket the supervisor holds.\<close>

definition listening :: "JupyterSocket option \<Rightarrow> bool" where
  "listening s = (case s of Some x \<Rightarrow> on_message x | None \<Rightarrow> False)"

text \<open>
  One turn of the event loop. A completion counts only if the supervisor is suspended in
  that operation, a message only if a listener is attached to the socket. What a public
  method throws goes to its caller; the state it had reached remains.
\<close>

definition step :: "event \<Rightarrow> JupyterKernel \<Rightarrow> JupyterKernel" where
  "step e k =
     (case e of
        Call_start \<Rightarrow> snd (start k)
      | Call_restart \<Rightarrow> snd (restart k)
      | Call_shutdown r \<Rightarrow> snd (shutdown r k)
      | Call_interrupt \<Rightarrow> snd (interrupt k)
      | Call_execute c i mode errorBehavior \<Rightarrow> snd (execute c i mode errorBehavior k)
      | Call_replyToPrompt i v \<Rightarrow> snd (replyToPrompt i v k)
      | Call_sendMessage packet \<Rightarrow> snd (sendMessage packet k)
      | Call_dispose \<Rightarrow> snd (dispose k)
      | Call_startLsp a \<Rightarrow> snd (startLsp a k)
      | Call_openComm t i d \<Rightarrow> snd (openComm t i d k)
      | Call_closeComm i \<Rightarrow> snd (closeComm i k)
      | Call_sendCommMessage i d \<Rightarrow> snd (sendCommMessage i d k)
      | Session_created p sess \<Rightarrow>
          if p \<in> set (awaiting_session k) then start_after_session p sess k else k
      | Session_failed p err \<Rightarrow>
          if p \<in> set (awaiting_session k) then start_session_failed p err k else k
      | Terminal_opened t \<Rightarrow> start_onDidOpenTerminal t k
      | ProcessId_resolved p sess t \<Rightarrow>
          if (p, sess, t) \<in> set (awaiting_processId k) then start_processId_then p sess t k else k
      | Terminal_closed t \<Rightarrow>
          fold (\<lambda>terminal. connectToTerminal_onDidCloseTerminal terminal t)
            (closeTerminal_listeners k) k
      | Sockets_connected p \<Rightarrow>
          if p \<in> set (awaiting_connect k) then connectToTerminal_connected p k else k
      | Sockets_failed p err \<Rightarrow>
          if p \<in> set (awaiting_connect k) then connectToTerminal_connect_failed p err k else k
      | Scan_resolved sessionState ts \<Rightarrow>
          if (sessionState, ts) \<in> set (awaiting_scan k) then reconnect_then sessionState ts k
          else k
      | Timer_fired h \<Rightarrow> timer_fires h k
      | Heartbeat_reply msg \<Rightarrow> heartbeat_onMessage msg k
      | Iopub_frames decoded \<Rightarrow> if listening (m_iopub k) then iopub_onMessage decoded k else k
      | Shell_frames decoded \<Rightarrow> if listening (m_shell k) then shell_onMessage decoded k else k
      | Stdin_frames decoded \<Rightarrow> if listening (m_stdin k) then stdin_onMessage decoded k else k
      | Port_found port \<Rightarrow> if 0 < awaiting_port k then onStatusChange_port port k else k
      | Lsp_connected \<Rightarrow> onStatusChange_lsp_connected k
      | Process_exited pr \<Rightarrow> process_exit pr k
      | Send_completed t err \<Rightarrow> sendToSocket_callback t err k
      | Execute_failed c i err \<Rightarrow> execute_catch c i err k
      | Tail_line data \<Rightarrow> logTail_onLine data k
      | Terminal_changed t obj \<Rightarrow> k\<lparr>terminal_at := (terminal_at k)(t := obj)\<rparr>
      | Window_changed ts \<Rightarrow> k\<lparr>window_terminals := ts\<rparr>)"

text \<open>A run of the event loop.\<close>

definition run :: "event list \<Rightarrow> JupyterKernel \<Rightarrow> JupyterKernel" where
  "run es k = fold step es k"



subsection \<open>Notions used in the statements, and a running example\<close>

definition outbound ::
  "string \<Rightarrow> string \<Rightarrow> parent_header_value \<Rightarrow> JupyterMessageSpec \<Rightarrow> JupyterSession
     \<Rightarrow> JupyterKernel \<Rightarrow> JupyterMessage" where
  "outbound i t parent body sess k =
     \<lparr>buffers = [], content = body,
      header = \<lparr>msg_id = i, msg_type = t, version = ''5.0'',
                date = toISOString (clock (host k) (clock_count k)),
                session = sessionId sess, username = os_username (host k)\<rparr>,
      metadata = [], parent_header = parent\<rparr>"

definition example_spec :: JupyterKernelSpec where
  "example_spec =
     \<lparr>display_name = ''R'', language = ''r'',
      argv = [''ark'', ''--connection_file'', ''{connection_file}'', ''--log'', ''{log_file}''],
      env = None\<rparr>"

definition example_host :: Host where
  "example_host =
     \<lparr>positron_heartbeat = None, os_username = ''user'', positron_version = ''2023.1'',
      process_env = [], uuids = (\<lambda>n. replicate (Suc n) CHR ''u''),
      clock = (\<lambda>n. \<lparr>toISOString = ''2023-01-01T00:00:00.000Z'', getUTCMilliseconds = 250 * n\<rparr>),
      connection_files = (\<lambda>p. Some \<lparr>control_port = 1, shell_port = 2, stdin_port = 3,
                                      iopub_port = 4, hb_port = 5\<rparr>),
      tail_throws = (\<lambda>p. False)\<rparr>"

definition example_state :: JupyterSessionState where
  "example_state =
     \<lparr>processId = Some 4242, logFile = ''/tmp/k.log'', connectionFile = ''/tmp/k.json'',
      ss_sessionId = ''s1'', ss_key = ''secret'', ss_ports = [1, 2, 3, 4, 5]\<rparr>"

definition example_terminal :: Terminal where
  "example_terminal = \<lparr>name = ''R'', terminal_processId = Some 4242, exitStatus = None\<rparr>"

text \<open>
  The supervisor of the example after its sockets have connected: it is \<open>Starting\<close>, the
  handshake \<open>hello\<close> is sent and the one-shot listener of the heartbeat socket waits for
  the reply. The history of effects is left empty.
\<close>

definition example_connected :: JupyterKernel where
  "example_connected =
     \<lparr>m_spec = example_spec, m_runtimeId = ''r-runtime'', m_lsp = False,
      m_process = None, m_logTail = Some \<lparr>tail_path = ''/tmp/k.log'', watching = True\<rparr>,
      m_status = Starting,
      m_control = Some (new_JupyterSocket ''Control'' ''dealer''),
      m_shell = Some \<lparr>title = ''Shell'', zmq_type = ''dealer'',
                       zmq_identity = Some ''positron-shell'', on_message = True,
                       once_message = False\<rparr>,
      m_stdin = Some \<lparr>title = ''Stdin'', zmq_type = ''dealer'',
                       zmq_identity = Some ''positron-shell'', on_message = True,
                       once_message = False\<rparr>,
      m_iopub = Some \<lparr>title = ''I/O'', zmq_type = ''sub'', zmq_identity = None,
                       on_message = True, once_message = False\<rparr>,
      m_heartbeat = Some \<lparr>title = ''Heartbeat'', zmq_type = ''req'', zmq_identity = None,
                           on_message = False, once_message = True\<rparr>,
      m_inputRequests = Map.empty,
      m_heartbeatTimer = None, m_nextHeartbeat = None, m_lastHeartbeat = 0,
      m_session = Some \<lparr>state = example_state\<rparr>, m_terminal = Some 0, m_lspCommId = None,
      status_callbacks = [], exit_listeners = [], closeTerminal_listeners = [0],
      openTerminal_listeners = [], timers = [],
      next_timer = 0, next_promise = 1,
      awaiting_session = [], awaiting_processId = [], awaiting_connect = [],
      awaiting_scan = [], awaiting_port = 0,
      host = example_host, uuid_count = 0, clock_count = 0,
      workspaceState = [''r-runtime'' \<mapsto> example_state], window_terminals = [0],
      terminal_at = (\<lambda>t. example_terminal),
      fs_existsSync = (\<lambda>f. f = ''/tmp/k.log''), effects = []\<rparr>"

text \<open>
  The same supervisor once the reply to the handshake has arrived: it is \<open>Ready\<close> and the
  first heartbeat of the cycle is sent, at a clock reading whose millisecond field is 0.
\<close>

definition example_ready :: JupyterKernel where
  "example_ready =
     example_connected
       \<lparr>m_status := Ready,
        m_heartbeat := Some \<lparr>title = ''Heartbeat'', zmq_type = ''req'', zmq_identity = None,
                             on_message = True, once_message = False\<rparr>,
        m_heartbeatTimer := Some 0, m_lastHeartbeat := 0,
        timers := [(0, 30000, Heartbeat_timeout)], next_timer := 1, clock_count := 1,
        effects := [Append_line (Log_initial_heartbeat ''hello''), Emit_status Ready,
                    Append_line (Log_heartbeat_check 30), Append_line Log_send_heartbeat,
                    Heartbeat_hello]\<rparr>"

definition rejections :: "string \<Rightarrow> RuntimeState \<Rightarrow> promise_ref list \<Rightarrow> effect list" where
  "rejections n st ps =
     concat (map (\<lambda>p. [Append_line (Log_skip_deferred n st), Promise_rejected p (Kernel_already st)]) ps)"

definition deferred_timers :: "nat \<Rightarrow> promise_ref list \<Rightarrow> (timer_handle \<times> nat \<times> timer_action) list" where
  "deferred_timers n ps = map (\<lambda>i. (n + i, 0, Deferred_start (ps ! i))) [0..<length ps]"

definition socket_disposals :: "JupyterKernel \<Rightarrow> effect list" where
  "socket_disposals k =
     map Socket_dispose (filter (\<lambda>ch. socket_of ch k \<noteq> None) [Control, Shell, Stdin, Heartbeat, IOPub])"

definition lsp_comm :: "JupyterKernel \<Rightarrow> string option" where
  "lsp_comm k = (case m_lspCommId k of Some c \<Rightarrow> if c \<noteq> [] then Some c else None | None \<Rightarrow> None)"

definition exited_cleanup :: "JupyterKernel \<Rightarrow> JupyterKernel" where
  "exited_cleanup k =
     (let k1 = k\<lparr>workspaceState := (workspaceState k)(m_runtimeId k := None),
                 effects := effects k
                   @ (case m_session k of Some s \<Rightarrow> [Session_dispose s] | None \<Rightarrow> [])
                   @ (case m_terminal k of
                        Some t \<Rightarrow> if exitStatus (terminal_at k t) = None then [Terminal_dispose t] else []
                      | None \<Rightarrow> [])\<rparr>
      in k1)"

definition effects_since :: "JupyterKernel \<Rightarrow> JupyterKernel \<Rightarrow> effect list" where
  "effects_since k k' = drop (length (effects k)) (effects k')"

fun is_launch :: "effect \<Rightarrow> bool" where
  "is_launch (Create_terminal opts) = True"
| "is_launch e = False"

definition launched :: "JupyterKernel \<Rightarrow> effect list" where
  "launched k = filter is_launch (effects k)"

text \<open>The arguments and the terminal that \<open>start()\<close> derives from the kernel specification.\<close>

definition substituted_args :: "string \<Rightarrow> string \<Rightarrow> string list \<Rightarrow> string list" where
  "substituted_args cf lf as =
     map (\<lambda>a. if a = ''{connection_file}'' then cf else if a = ''{log_file}'' then lf else a) as"

definition terminal_options :: "JupyterKernel \<Rightarrow> JupyterSession \<Rightarrow> TerminalOptions" where
  "terminal_options k sess =
     (let args = substituted_args (connectionFile (state sess)) (logFile (state sess)) (argv (m_spec k))
      in \<lparr>opt_name = display_name (m_spec k),
          shellPath = (case args of [] \<Rightarrow> None | a # _ \<Rightarrow> Some a),
          shellArgs = tl args,
          opt_env = (''POSITRON_VERSION'', positron_version (host k)) # process_env (host k)
                      @ (case env (m_spec k) of Some e \<Rightarrow> e | None \<Rightarrow> []),
          opt_message = ''** '' @ display_name (m_spec k) @ '' **'',
          hideFromUser = False, isTransient = False\<rparr>)"

text \<open>A supervisor constructed with nothing persisted, and the session a start creates for it.\<close>

definition example_new :: JupyterKernel where
  "example_new =
     JupyterKernel_new example_host Map.empty [] (\<lambda>t. example_terminal) (\<lambda>f. False)
       example_spec ''r-runtime'' False"

definition example_session :: JupyterSession where
  "example_session = \<lparr>state = example_state\<lparr>processId := None\<rparr>\<rparr>"

text \<open>Two open terminals, neither with process id 4242: one named as the kernel, one not.\<close>

definition example_other_terminals :: "terminal_ref \<Rightarrow> Terminal" where
  "example_other_terminals t =
     (if t = 0 then \<lparr>name = ''R'', terminal_processId = Some 1111, exitStatus = None\<rparr>
      else \<lparr>name = ''bash'', terminal_processId = Some 2222, exitStatus = None\<rparr>)"

text \<open>
  An inbound message that nothing caused, as a kernel publishes when it starts: its parent
  header is the empty object.
\<close>

definition example_status :: JupyterMessage where
  "example_status =
     \<lparr>buffers = [], content = Json ''{execution_state: starting}'',
      header = \<lparr>msg_id = ''k-1'', msg_type = ''status'', version = ''5.3'',
                date = ''2023-01-01T00:00:00.500Z'', session = ''s1'', username = ''kernel''\<rparr>,
      metadata = [], parent_header = Empty_object\<rparr>"

text \<open>The channel and content of the message that a send effect carries.\<close>

fun sent_content :: "effect \<Rightarrow> (JupyterSockets \<times> JupyterMessageSpec) option" where
  "sent_content (Socket_send ch msg signing_key) = Some (ch, content msg)"
| "sent_content e = None"

text \<open>The supervisor of the example after \<open>restart()\<close>, when its terminal has exited with code 0.\<close>

definition example_restarted :: JupyterKernel where
  "example_restarted =
     (snd (restart example_ready))
       \<lparr>terminal_at := (\<lambda>t. example_terminal\<lparr>exitStatus := Some (Some 0)\<rparr>)\<rparr>"

text \<open>The parent header of the message that a send effect carries.\<close>

fun parent_header_of_reply :: "effect \<Rightarrow> parent_header_value option" where
  "parent_header_of_reply (Socket_send ch msg signing_key) = Some (parent_header msg)"
| "parent_header_of_reply e = None"

text \<open>The supervisor of the example while it is still starting, its terminal having exited with code 1.\<close>

definition example_failed :: JupyterKernel where
  "example_failed =
     example_ready\<lparr>m_status := Starting,
                   terminal_at := (\<lambda>t. example_terminal\<lparr>exitStatus := Some (Some 1)\<rparr>)\<rparr>"

definition example_request :: JupyterMessage where
  "example_request =
     \<lparr>buffers = [], content = Json ''{prompt: > , password: false}'',
      header = \<lparr>msg_id = ''req-1'', msg_type = ''input_request'', version = ''5.3'',
                date = ''2023-01-01T00:00:01.000Z'', session = ''s1'', username = ''kernel''\<rparr>,
      metadata = [], parent_header = Empty_object\<rparr>"

text \<open>
  The status events among the effects, and what a turn of the event loop may do to the
  state machine. \<open>quiet\<close>: nothing. \<open>settles\<close>: nothing, or status changes none of which
  is to \<open>Initializing\<close>, after which no deferred start is subscribed. \<open>starts\<close>: what the
  body of \<open>start()\<close> may do. None of them touches the process or its \<open>exit\<close> listeners.
\<close>

fun is_status :: "effect \<Rightarrow> bool" where
  "is_status (Emit_status st) = True"
| "is_status e = False"

definition transitions :: "JupyterKernel \<Rightarrow> effect list" where
  "transitions k = filter is_status (effects k)"

definition quiet :: "JupyterKernel \<Rightarrow> JupyterKernel \<Rightarrow> bool" where
  "quiet k k' \<longleftrightarrow>
     m_process k' = m_process k \<and> exit_listeners k' = exit_listeners k
     \<and> m_status k' = m_status k \<and> status_callbacks k' = status_callbacks k
     \<and> transitions k' = transitions k"

definition settles :: "JupyterKernel \<Rightarrow> JupyterKernel \<Rightarrow> bool" where
  "settles k k' \<longleftrightarrow>
     quiet k k'
     \<or> (m_process k' = m_process k \<and> exit_listeners k' = exit_listeners k
        \<and> status_callbacks k' = []
        \<and> (\<exists>sts. sts \<noteq> [] \<and> Initializing \<notin> set sts \<and> m_status k' = last sts
                  \<and> transitions k' = transitions k @ map Emit_status sts))"

definition starts :: "JupyterKernel \<Rightarrow> JupyterKernel \<Rightarrow> bool" where
  "starts k k' \<longleftrightarrow>
     m_process k' = m_process k \<and> exit_listeners k' = exit_listeners k
     \<and> ((m_status k = Initializing \<and> m_status k' = Initializing
          \<and> transitions k' = transitions k)
        \<or> quiet k k'
        \<or> ((m_status k = Uninitialized \<or> m_status k = Exited) \<and> m_status k' = Initializing
           \<and> status_callbacks k' = status_callbacks k
           \<and> transitions k' = transitions k @ [Emit_status Initializing]))"

text \<open>
  The invariant of the supervisor: it has no process and no \<open>exit\<close> listener, and deferred
  starts are subscribed only while it is \<open>Initializing\<close>.
\<close>

definition invariant :: "JupyterKernel \<Rightarrow> bool" where
  "invariant k \<longleftrightarrow>
     m_process k = None \<and> exit_listeners k = []
     \<and> (status_callbacks k = [] \<or> m_status k = Initializing)"

section \<open>Properties\<close>

subsection \<open>Sending, disposal and status changes\<close>

lemma socket_of_simps [simp]:
  "socket_of Control k = m_control k"
  "socket_of Shell k = m_shell k"
  "socket_of Stdin k = m_stdin k"
  "socket_of IOPub k = m_iopub k"
  "socket_of Heartbeat k = m_heartbeat k"
  by (simp_all add: socket_of_def)

lemma sendToSocket_connected:
  assumes "m_session k = Some sess" and "socket_of dest k = Some sock"
  shows "sendToSocket i t dest parent body k =
           (None, k\<lparr>clock_count := Suc (clock_count k),
                     effects := effects k @
                       [Append_line (Log_send t (title sock) (outbound i t parent body sess k)),
                        Socket_send dest (outbound i t parent body sess k) (key sess)]\<rparr>)"
  using assms
  by (cases dest)
     (simp_all add: sendToSocket_def generateMessageHeader_def new_Date_def appendLine_def
        do_effect_def outbound_def Let_def)

lemma example_ready_fields:
  "m_status example_ready = Ready"
  "m_session example_ready = Some \<lparr>state = example_state\<rparr>"
  "m_shell example_ready = Some \<lparr>title = ''Shell'', zmq_type = ''dealer'',
      zmq_identity = Some ''positron-shell'', on_message = True, once_message = False\<rparr>"
  "m_stdin example_ready = Some \<lparr>title = ''Stdin'', zmq_type = ''dealer'',
      zmq_identity = Some ''positron-shell'', on_message = True, once_message = False\<rparr>"
  "next_promise example_ready = 1"
  "effects example_ready =
     [Append_line (Log_initial_heartbeat ''hello''), Emit_status Ready,
      Append_line (Log_heartbeat_check 30), Append_line Log_send_heartbeat, Heartbeat_hello]"
  "m_spec example_ready = example_spec"
  "m_inputRequests example_ready = Map.empty"
  "m_control example_ready = Some (new_JupyterSocket ''Control'' ''dealer'')"
  "m_iopub example_ready = Some \<lparr>title = ''I/O'', zmq_type = ''sub'', zmq_identity = None,
      on_message = True, once_message = False\<rparr>"
  "m_heartbeat example_ready = Some \<lparr>title = ''Heartbeat'', zmq_type = ''req'',
      zmq_identity = None, on_message = True, once_message = False\<rparr>"
  "m_runtimeId example_ready = ''r-runtime''"
  "m_lsp example_ready = False"
  "m_process example_ready = None"
  "m_logTail example_ready = Some \<lparr>tail_path = ''/tmp/k.log'', watching = True\<rparr>"
  "m_heartbeatTimer example_ready = Some 0"
  "m_nextHeartbeat example_ready = None"
  "m_lastHeartbeat example_ready = 0"
  "m_terminal example_ready = Some 0"
  "m_lspCommId example_ready = None"
  "status_callbacks example_ready = []"
  "exit_listeners example_ready = []"
  "closeTerminal_listeners example_ready = [0]"
  "timers example_ready = [(0, 30000, Heartbeat_timeout)]"
  "next_timer example_ready = 1"
  "host example_ready = example_host"
  "uuid_count example_ready = 0"
  "clock_count example_ready = 1"
  "workspaceState example_ready = [''r-runtime'' \<mapsto> example_state]"
  "terminal_at example_ready = (\<lambda>t. example_terminal)"
  "awaiting_session example_ready = []"
  by (simp_all add: example_ready_def example_connected_def)

lemma fold_remove1_self: "fold remove1 ps (ps @ qs) = qs"
  by (induction ps) simp_all

lemma fold_start_callback_Initializing:
  "fold (\<lambda>p. start_callback p Initializing) ps k = k"
  by (induction ps) (simp_all add: start_callback_def)

lemma fold_start_callback_other:
  assumes "st \<noteq> Initializing" and "st \<noteq> Uninitialized"
  shows "fold (\<lambda>p. start_callback p st) ps k =
           k\<lparr>status_callbacks := fold remove1 ps (status_callbacks k),
             effects := effects k @ rejections (display_name (m_spec k)) st ps\<rparr>"
  using assms
  by (induction ps arbitrary: k)
     (simp_all add: start_callback_def rejections_def appendLine_def do_effect_def)

lemma deferred_timers_Cons:
  "deferred_timers n (p # ps) = (n, 0, Deferred_start p) # deferred_timers (Suc n) ps"
proof -
  have "[0..<length (p # ps)] = 0 # map Suc [0..<length ps]"
    by (simp add: upt_conv_Cons map_Suc_upt del: upt_Suc)
  then show ?thesis
    by (simp add: deferred_timers_def comp_def del: upt_Suc)
qed

lemma fold_start_callback_Uninitialized:
  "fold (\<lambda>p. start_callback p Uninitialized) ps k =
     k\<lparr>status_callbacks := fold remove1 ps (status_callbacks k),
       effects := effects k @ replicate (length ps) (Append_line (Log_deferred_start (display_name (m_spec k)))),
       timers := timers k @ deferred_timers (next_timer k) ps,
       next_timer := next_timer k + length ps\<rparr>"
proof (induction ps arbitrary: k)
  case Nil
  then show ?case by (simp add: deferred_timers_def)
next
  case (Cons p ps)
  have step: "start_callback p Uninitialized k =
      k\<lparr>status_callbacks := remove1 p (status_callbacks k),
        effects := effects k @ [Append_line (Log_deferred_start (display_name (m_spec k)))],
        timers := timers k @ [(next_timer k, 0, Deferred_start p)],
        next_timer := Suc (next_timer k)\<rparr>"
    by (simp add: start_callback_def setTimeout_def appendLine_def do_effect_def)
  show ?case
    by (simp add: step Cons.IH deferred_timers_Cons)
qed

lemma sendToSocket_no_session:
  assumes "m_session k = None"
  shows "sendToSocket i t dest parent body k = (Some TypeError, k\<lparr>clock_count := Suc (clock_count k)\<rparr>)"
  using assms by (simp add: sendToSocket_def generateMessageHeader_def new_Date_def)

lemma sendToSocket_no_socket:
  assumes "m_session k = Some sess" and "socket_of dest k = None"
  shows "sendToSocket i t dest parent body k = (Some TypeError, k\<lparr>clock_count := Suc (clock_count k)\<rparr>)"
  using assms
  by (cases dest) (simp_all add: sendToSocket_def generateMessageHeader_def new_Date_def Let_def)

lemma disposeAllSockets_eq:
  "disposeAllSockets k =
     k\<lparr>m_control := None, m_shell := None, m_stdin := None, m_iopub := None, m_heartbeat := None,
       effects := effects k @ socket_disposals k\<rparr>"
  by (simp add: disposeAllSockets_def dispose_socket_def socket_disposals_def do_effect_def
        Let_def split: option.splits)

lemma disposeHeartbeatTimers_eq:
  "disposeHeartbeatTimers k =
     k\<lparr>m_heartbeatTimer := None, m_nextHeartbeat := None,
       timers := filter (\<lambda>t. Some (fst t) \<noteq> m_heartbeatTimer k \<and> Some (fst t) \<noteq> m_nextHeartbeat k)
                   (timers k)\<rparr>"
  by (simp add: disposeHeartbeatTimers_def clearTimeout_def Let_def split: option.splits)

lemma logTail_unwatch_eq:
  "logTail_unwatch k =
     k\<lparr>m_logTail := map_option (\<lambda>t. t\<lparr>watching := False\<rparr>) (m_logTail k),
       effects := effects k @ (case m_logTail k of Some t \<Rightarrow> [Tail_unwatch (tail_path t)] | None \<Rightarrow> [])\<rparr>"
  by (simp add: logTail_unwatch_def do_effect_def split: option.splits)

lemma closeComm_connected:
  assumes "m_session k = Some sess" and "m_shell k = Some sock"
  shows "closeComm c k =
           (None, k\<lparr>uuid_count := Suc (uuid_count k), clock_count := Suc (clock_count k),
                     effects := effects k @
                       [Append_line (Log_send ''comm_close'' (title sock)
                          (outbound (uuids (host k) (uuid_count k)) ''comm_close'' Empty_object (Comm_close c) sess k)),
                        Socket_send Shell
                          (outbound (uuids (host k) (uuid_count k)) ''comm_close'' Empty_object (Comm_close c) sess k)
                          (key sess)]\<rparr>)"
  using assms
  by (simp add: closeComm_def uuidv4_def send_def sendToSocket_connected outbound_def)

lemma closeComm_throws:
  assumes "m_session k = None \<or> m_shell k = None"
  shows "closeComm c k =
           (Some TypeError, k\<lparr>uuid_count := Suc (uuid_count k), clock_count := Suc (clock_count k)\<rparr>)"
proof (cases "m_session k")
  case None
  then show ?thesis
    by (simp add: closeComm_def uuidv4_def send_def sendToSocket_no_session)
next
  case (Some sess)
  with assms have "m_shell k = None" by simp
  with Some show ?thesis
    by (simp add: closeComm_def uuidv4_def send_def sendToSocket_no_socket)
qed

lemma dispose_no_lsp:
  assumes "lsp_comm k = None"
  shows "dispose k = (None, disposeAllSockets (disposeHeartbeatTimers (logTail_unwatch k)))"
  using assms by (simp add: dispose_def lsp_comm_def split: option.splits if_splits)

lemma dispose_lsp_connected:
  assumes "lsp_comm k = Some c" and "m_session k = Some sess" and "m_shell k = Some sock"
  shows "dispose k =
           (None, disposeAllSockets (disposeHeartbeatTimers (logTail_unwatch (snd (closeComm c k)))))"
  using assms
  by (simp add: dispose_def lsp_comm_def closeComm_connected split: option.splits if_splits)

lemma dispose_lsp_throws:
  assumes "lsp_comm k = Some c" and "m_session k = None \<or> m_shell k = None"
  shows "dispose k =
           (Some TypeError, k\<lparr>uuid_count := Suc (uuid_count k), clock_count := Suc (clock_count k)\<rparr>)"
  using assms
  by (simp add: dispose_def lsp_comm_def closeComm_throws split: option.splits if_splits)

lemma onStatusChange_Exited:
  "onStatusChange Exited k = snd (dispose (exited_cleanup k))"
  by (simp add: onStatusChange_def exited_cleanup_def do_effect_def Let_def split: option.splits)

lemma onStatusChange_other:
  assumes "st \<noteq> Exited" and "st \<noteq> Ready"
  shows "onStatusChange st k = k"
  using assms by (simp add: onStatusChange_def)

lemma setStatus_Initializing:
  "setStatus Initializing k = k\<lparr>effects := effects k @ [Emit_status Initializing], m_status := Initializing\<rparr>"
  by (simp add: setStatus_def onStatusChange_other fold_start_callback_Initializing do_effect_def)

lemma setStatus_Uninitialized:
  "setStatus Uninitialized k =
     k\<lparr>m_status := Uninitialized, status_callbacks := [],
       effects := effects k @ Emit_status Uninitialized
          # replicate (length (status_callbacks k)) (Append_line (Log_deferred_start (display_name (m_spec k)))),
       timers := timers k @ deferred_timers (next_timer k) (status_callbacks k),
       next_timer := next_timer k + length (status_callbacks k)\<rparr>"
  using fold_remove1_self [of "status_callbacks k" "[]"]
  by (simp add: setStatus_def onStatusChange_other fold_start_callback_Uninitialized do_effect_def)

lemma setStatus_other:
  assumes "st \<noteq> Initializing" and "st \<noteq> Uninitialized" and "st \<noteq> Exited" and "st \<noteq> Ready"
  shows "setStatus st k =
     k\<lparr>m_status := st, status_callbacks := [],
       effects := effects k @ Emit_status st # rejections (display_name (m_spec k)) st (status_callbacks k)\<rparr>"
  using assms fold_remove1_self [of "status_callbacks k" "[]"]
  by (simp add: setStatus_def onStatusChange_other fold_start_callback_other do_effect_def)

lemma dispose_cases:
  "snd (dispose k) = disposeAllSockets (disposeHeartbeatTimers (logTail_unwatch k))
   \<or> (\<exists>c sess sock. m_session k = Some sess \<and> m_shell k = Some sock
         \<and> snd (dispose k) =
             disposeAllSockets (disposeHeartbeatTimers (logTail_unwatch
               (k\<lparr>uuid_count := Suc (uuid_count k), clock_count := Suc (clock_count k),
                   effects := effects k @
                     [Append_line (Log_send ''comm_close'' (title sock)
                        (outbound (uuids (host k) (uuid_count k)) ''comm_close'' Empty_object
                           (Comm_close c) sess k)),
                      Socket_send Shell
                        (outbound (uuids (host k) (uuid_count k)) ''comm_close'' Empty_object
                           (Comm_close c) sess k)
                        (key sess)]\<rparr>))))
   \<or> snd (dispose k) = k\<lparr>uuid_count := Suc (uuid_count k), clock_count := Suc (clock_count k)\<rparr>"
proof -
  consider (none) "lsp_comm k = None"
    | (conn) c sess sock where "lsp_comm k = Some c" "m_session k = Some sess" "m_shell k = Some sock"
    | (throws) c where "lsp_comm k = Some c" "m_session k = None \<or> m_shell k = None"
    by (cases "lsp_comm k"; cases "m_session k"; cases "m_shell k") auto
  then show ?thesis
  proof cases
    case none
    then show ?thesis by (simp add: dispose_no_lsp)
  next
    case conn
    have "snd (dispose k) =
             disposeAllSockets (disposeHeartbeatTimers (logTail_unwatch
               (k\<lparr>uuid_count := Suc (uuid_count k), clock_count := Suc (clock_count k),
                   effects := effects k @
                     [Append_line (Log_send ''comm_close'' (title sock)
                        (outbound (uuids (host k) (uuid_count k)) ''comm_close'' Empty_object
                           (Comm_close c) sess k)),
                      Socket_send Shell
                        (outbound (uuids (host k) (uuid_count k)) ''comm_close'' Empty_object
                           (Comm_close c) sess k)
                        (key sess)]\<rparr>)))"
      by (simp add: dispose_lsp_connected [OF conn] closeComm_connected [OF conn(2,3)])
    with conn(2,3) show ?thesis by blast
  next
    case throws
    then show ?thesis by (simp add: dispose_lsp_throws [OF throws])
  qed
qed

lemmas disposal_eqs = disposeAllSockets_eq disposeHeartbeatTimers_eq logTail_unwatch_eq

lemma dispose_frame:
  "status_callbacks (snd (dispose k)) = status_callbacks k"
  "m_spec (snd (dispose k)) = m_spec k"
  "m_process (snd (dispose k)) = m_process k"
  "m_status (snd (dispose k)) = m_status k"
  "m_runtimeId (snd (dispose k)) = m_runtimeId k"
  "workspaceState (snd (dispose k)) = workspaceState k"
  "m_session (snd (dispose k)) = m_session k"
  "next_timer (snd (dispose k)) = next_timer k"
  "exit_listeners (snd (dispose k)) = exit_listeners k"
  "awaiting_session (snd (dispose k)) = awaiting_session k"
  using dispose_cases [of k] by (auto simp: disposal_eqs)

lemma is_launch_socket_disposals [simp]: "filter is_launch (socket_disposals k) = []"
  by (simp add: socket_disposals_def)

lemma is_launch_rejections [simp]: "filter is_launch (rejections n st ps) = []"
  by (induction ps) (simp_all add: rejections_def)

lemma is_status_socket_disposals [simp]: "filter is_status (socket_disposals k) = []"
  by (simp add: socket_disposals_def)

lemma is_status_rejections [simp]: "filter is_status (rejections n st ps) = []"
  by (induction ps) (simp_all add: rejections_def)

lemma dispose_effects:
  "\<exists>E. effects (snd (dispose k)) = effects k @ E \<and> filter is_launch E = []
        \<and> filter is_status E = []"
  using dispose_cases [of k] by (auto simp: disposal_eqs split: option.splits)

lemma do_effect_frame [simp]:
  "m_session (do_effect e k) = m_session k"
  "m_shell (do_effect e k) = m_shell k"
  "m_terminal (do_effect e k) = m_terminal k"
  "terminal_at (do_effect e k) = terminal_at k"
  "effects (do_effect e k) = effects k @ [e]"
  "status_callbacks (do_effect e k) = status_callbacks k"
  "m_spec (do_effect e k) = m_spec k"
  by (simp_all add: do_effect_def)

lemma onStatusChange_frame:
  "status_callbacks (onStatusChange st k) = status_callbacks k"
  "m_spec (onStatusChange st k) = m_spec k"
  "m_process (onStatusChange st k) = m_process k"
  "m_status (onStatusChange st k) = m_status k"
  "exit_listeners (onStatusChange st k) = exit_listeners k"
  "awaiting_session (onStatusChange st k) = awaiting_session k"
  by (simp_all add: onStatusChange_def dispose_frame Let_def do_effect_def split: option.splits)

lemma onStatusChange_effects:
  "\<exists>E. effects (onStatusChange st k) = effects k @ E \<and> filter is_launch E = []
        \<and> filter is_status E = []"
proof (cases "st = Exited")
  case True
  obtain E where "effects (snd (dispose (exited_cleanup k))) = effects (exited_cleanup k) @ E"
    and "filter is_launch E = []" and "filter is_status E = []"
    using dispose_effects by blast
  with True show ?thesis
    by (simp add: onStatusChange_Exited exited_cleanup_def split: option.splits)
next
  case False
  then show ?thesis
    by (simp add: onStatusChange_def do_effect_def split: option.splits)
qed

text \<open>The general shape of a status change.\<close>

lemma setStatus_eq:
  "setStatus st k =
     (fold (\<lambda>p. start_callback p st) (status_callbacks k)
        (onStatusChange st (do_effect (Emit_status st) k)))\<lparr>m_status := st\<rparr>"
  by (simp add: setStatus_def)

lemma setStatus_rejecting:
  assumes "st \<noteq> Initializing" and "st \<noteq> Uninitialized"
  shows "setStatus st k =
     (onStatusChange st (do_effect (Emit_status st) k))
       \<lparr>status_callbacks := [],
        effects := effects (onStatusChange st (do_effect (Emit_status st) k))
                     @ rejections (display_name (m_spec k)) st (status_callbacks k),
        m_status := st\<rparr>"
  using assms fold_remove1_self [of "status_callbacks k" "[]"]
  by (simp add: setStatus_eq fold_start_callback_other onStatusChange_frame)

lemma setStatus_effects:
  "\<exists>E. effects (setStatus st k) = effects k @ Emit_status st # E \<and> filter is_launch E = []
        \<and> filter is_status E = []"
proof -
  obtain E where E: "effects (onStatusChange st (do_effect (Emit_status st) k))
      = effects (do_effect (Emit_status st) k) @ E" "filter is_launch E = []"
      "filter is_status E = []"
    using onStatusChange_effects by blast
  show ?thesis
  proof (cases "st = Initializing \<or> st = Uninitialized")
    case True
    then show ?thesis
      by (auto simp: setStatus_Initializing setStatus_Uninitialized)
  next
    case False
    with E show ?thesis
      by (simp add: setStatus_rejecting)
  qed
qed

lemma launched_setStatus: "launched (setStatus st k) = launched k"
  using setStatus_effects [of st k] by (auto simp: launched_def)

lemma transitions_setStatus: "transitions (setStatus st k) = transitions k @ [Emit_status st]"
  using setStatus_effects [of st k] by (auto simp: transitions_def)

lemma setStatus_frame:
  "m_status (setStatus st k) = st"
  "m_spec (setStatus st k) = m_spec k"
  "m_process (setStatus st k) = m_process k"
  "exit_listeners (setStatus st k) = exit_listeners k"
  "awaiting_session (setStatus st k) = awaiting_session k"
proof -
  consider "st = Initializing" | "st = Uninitialized" | "st \<noteq> Initializing \<and> st \<noteq> Uninitialized"
    by blast
  then have "m_status (setStatus st k) = st \<and> m_spec (setStatus st k) = m_spec k
     \<and> m_process (setStatus st k) = m_process k
     \<and> exit_listeners (setStatus st k) = exit_listeners k
     \<and> awaiting_session (setStatus st k) = awaiting_session k"
  proof cases
    case 1
    then show ?thesis by (simp add: setStatus_Initializing)
  next
    case 2
    then show ?thesis by (simp add: setStatus_Uninitialized)
  next
    case 3
    then show ?thesis by (simp add: setStatus_rejecting onStatusChange_frame do_effect_def)
  qed
  then show "m_status (setStatus st k) = st" "m_spec (setStatus st k) = m_spec k"
    "m_process (setStatus st k) = m_process k"
    "exit_listeners (setStatus st k) = exit_listeners k"
    "awaiting_session (setStatus st k) = awaiting_session k"
    by simp_all
qed

lemma setStatus_callbacks:
  "status_callbacks (setStatus st k) = (if st = Initializing then status_callbacks k else [])"
proof (cases "st = Initializing \<or> st = Uninitialized")
  case True
  then show ?thesis by (auto simp: setStatus_Initializing setStatus_Uninitialized)
next
  case False
  then show ?thesis by (simp add: setStatus_rejecting)
qed

lemma lsp_comm_frame [simp]:
  "lsp_comm (exited_cleanup k) = lsp_comm k"
  "lsp_comm (do_effect e k) = lsp_comm k"
  by (simp_all add: lsp_comm_def exited_cleanup_def do_effect_def)

lemma exited_cleanup_frame [simp]:
  "m_session (exited_cleanup k) = m_session k"
  "m_shell (exited_cleanup k) = m_shell k"
  by (simp_all add: exited_cleanup_def)

lemma socket_disposals_mem:
  "Socket_dispose ch \<in> set (socket_disposals k) \<longleftrightarrow> socket_of ch k \<noteq> None"
  by (cases ch) (auto simp: socket_disposals_def)

lemma setStatus_Exited_unfold:
  "setStatus Exited k =
      (snd (dispose (exited_cleanup (do_effect (Emit_status Exited) k))))
        \<lparr>status_callbacks := [],
         effects := effects (snd (dispose (exited_cleanup (do_effect (Emit_status Exited) k))))
                      @ rejections (display_name (m_spec k)) Exited (status_callbacks k),
         m_status := Exited\<rparr>"
  by (simp add: setStatus_rejecting onStatusChange_Exited)

lemma setStatus_Exited_always:
  "m_status (setStatus Exited k) = Exited
   \<and> workspaceState (setStatus Exited k) = (workspaceState k)(m_runtimeId k := None)
   \<and> (\<forall>s. m_session k = Some s \<longrightarrow> Session_dispose s \<in> set (effects_since k (setStatus Exited k)))
   \<and> (\<forall>t. m_terminal k = Some t \<longrightarrow> exitStatus (terminal_at k t) = None
          \<longrightarrow> Terminal_dispose t \<in> set (effects_since k (setStatus Exited k)))"
proof -
  define k1 where "k1 = exited_cleanup (do_effect (Emit_status Exited) k)"
  obtain E where E: "effects (snd (dispose k1)) = effects k1 @ E"
    using dispose_effects by blast
  have k1: "workspaceState k1 = (workspaceState k)(m_runtimeId k := None)"
    "effects k1 = effects k @ Emit_status Exited
        # (case m_session k of Some s \<Rightarrow> [Session_dispose s] | None \<Rightarrow> [])
        @ (case m_terminal k of
             Some t \<Rightarrow> if exitStatus (terminal_at k t) = None then [Terminal_dispose t] else []
           | None \<Rightarrow> [])"
    by (simp_all add: k1_def exited_cleanup_def do_effect_def split: option.splits)
  have "setStatus Exited k =
      (snd (dispose k1))
        \<lparr>status_callbacks := [],
         effects := effects (snd (dispose k1))
                      @ rejections (display_name (m_spec k)) Exited (status_callbacks k),
         m_status := Exited\<rparr>"
    unfolding k1_def by (rule setStatus_Exited_unfold)
  then show ?thesis
    by (simp add: E k1 dispose_frame effects_since_def)
qed

lemma dispose_safe:
  assumes "lsp_comm k = None \<or> (m_session k \<noteq> None \<and> m_shell k \<noteq> None)"
  obtains u c E where
    "snd (dispose k) =
       disposeAllSockets (disposeHeartbeatTimers (logTail_unwatch
         (k\<lparr>uuid_count := u, clock_count := c, effects := effects k @ E\<rparr>)))"
proof (cases "lsp_comm k")
  case None
  have "snd (dispose k) =
       disposeAllSockets (disposeHeartbeatTimers (logTail_unwatch
         (k\<lparr>uuid_count := uuid_count k, clock_count := clock_count k, effects := effects k @ []\<rparr>)))"
    by (simp add: dispose_no_lsp [OF None])
  then show ?thesis by (rule that)
next
  case (Some c)
  with assms obtain sess sock where conn: "m_session k = Some sess" "m_shell k = Some sock"
    by auto
  have "snd (dispose k) =
       disposeAllSockets (disposeHeartbeatTimers (logTail_unwatch
         (k\<lparr>uuid_count := Suc (uuid_count k), clock_count := Suc (clock_count k),
             effects := effects k @
               [Append_line (Log_send ''comm_close'' (title sock)
                  (outbound (uuids (host k) (uuid_count k)) ''comm_close'' Empty_object
                     (Comm_close c) sess k)),
                Socket_send Shell
                  (outbound (uuids (host k) (uuid_count k)) ''comm_close'' Empty_object
                     (Comm_close c) sess k)
                  (key sess)]\<rparr>)))"
    by (simp add: dispose_lsp_connected [OF Some conn] closeComm_connected [OF conn])
  then show ?thesis by (rule that)
qed

lemma setStatus_Exited_connection:
  assumes "lsp_comm k = None \<or> (m_session k \<noteq> None \<and> m_shell k \<noteq> None)"
  shows "(\<forall>tl. m_logTail k = Some tl \<longrightarrow>
             Tail_unwatch (tail_path tl) \<in> set (effects_since k (setStatus Exited k))
             \<and> m_logTail (setStatus Exited k) = Some (tl\<lparr>watching := False\<rparr>))
       \<and> m_heartbeatTimer (setStatus Exited k) = None
       \<and> m_nextHeartbeat (setStatus Exited k) = None
       \<and> timers (setStatus Exited k) =
           filter (\<lambda>t. Some (fst t) \<noteq> m_heartbeatTimer k \<and> Some (fst t) \<noteq> m_nextHeartbeat k) (timers k)
       \<and> (\<forall>ch. socket_of ch (setStatus Exited k) = None
              \<and> (socket_of ch k \<noteq> None \<longrightarrow>
                   Socket_dispose ch \<in> set (effects_since k (setStatus Exited k))))"
proof -
  let ?k1 = "exited_cleanup (do_effect (Emit_status Exited) k)"
  from assms have "lsp_comm ?k1 = None \<or> (m_session ?k1 \<noteq> None \<and> m_shell ?k1 \<noteq> None)"
    by simp
  then obtain u c E where d:
    "snd (dispose ?k1) =
       disposeAllSockets (disposeHeartbeatTimers (logTail_unwatch
         (?k1\<lparr>uuid_count := u, clock_count := c, effects := effects ?k1 @ E\<rparr>)))"
    by (rule dispose_safe)
  have main: "(\<forall>tl. m_logTail k = Some tl \<longrightarrow>
             Tail_unwatch (tail_path tl) \<in> set (effects_since k (setStatus Exited k))
             \<and> m_logTail (setStatus Exited k) = Some (tl\<lparr>watching := False\<rparr>))
       \<and> m_heartbeatTimer (setStatus Exited k) = None
       \<and> m_nextHeartbeat (setStatus Exited k) = None
       \<and> timers (setStatus Exited k) =
           filter (\<lambda>t. Some (fst t) \<noteq> m_heartbeatTimer k \<and> Some (fst t) \<noteq> m_nextHeartbeat k) (timers k)"
    unfolding setStatus_Exited_unfold d
    by (simp add: disposal_eqs exited_cleanup_def do_effect_def effects_since_def)
  have socks: "socket_of ch (setStatus Exited k) = None
              \<and> (socket_of ch k \<noteq> None \<longrightarrow>
                   Socket_dispose ch \<in> set (effects_since k (setStatus Exited k)))" for ch
    unfolding setStatus_Exited_unfold d
    by (cases ch)
       (simp_all add: disposal_eqs exited_cleanup_def do_effect_def effects_since_def
          socket_disposals_mem)
  from main socks show ?thesis by blast
qed

subsection \<open>Prompts and reconnection\<close>

lemma emitMessage_eq:
  "emitMessage sock msg k =
     k\<lparr>effects := effects k @
         [Append_line (Log_recv (msg_type (header msg)) sock msg),
          Emit_message
            \<lparr>packet_type = ''jupyter-message'', message = content msg,
             msgId = msg_id (header msg), msgType = msg_type (header msg),
             when_ = date (header msg),
             originId = (case parent_header msg of
                           No_header \<Rightarrow> Some []
                         | Empty_object \<Rightarrow> None
                         | Header h \<Rightarrow> Some (msg_id h)),
             socket = sock\<rparr>]\<rparr>"
  by (simp add: emitMessage_def appendLine_def do_effect_def)

lemma fold_reconnect_processId_then:
  "fold (reconnect_processId_then sessionState) ts k =
     k\<lparr>effects := effects k @
         map Terminal_dispose
           (filter (\<lambda>t. name (terminal_at k t) = display_name (m_spec k)
                        \<and> terminal_processId (terminal_at k t) \<noteq> processId sessionState) ts)\<rparr>"
proof (induction ts arbitrary: k)
  case Nil
  then show ?case by simp
next
  case (Cons t ts)
  have step: "reconnect_processId_then sessionState t k =
      k\<lparr>effects := effects k @
          map Terminal_dispose
            (filter (\<lambda>t. name (terminal_at k t) = display_name (m_spec k)
                         \<and> terminal_processId (terminal_at k t) \<noteq> processId sessionState) [t])\<rparr>"
    by (simp add: reconnect_processId_then_def do_effect_def)
  show ?case
    by (simp add: step Cons.IH)
qed

subsection \<open>Starting\<close>

lemma start_Initializing:
  assumes "m_status k = Initializing"
  shows "start k =
     (next_promise k,
      k\<lparr>next_promise := Suc (next_promise k),
        effects := effects k @ [Append_line (Log_start_deferring (display_name (m_spec k)))],
        status_callbacks := status_callbacks k @ [next_promise k]\<rparr>)"
  using assms by (simp add: start_def start_body_def appendLine_def do_effect_def)

lemma start_fresh:
  assumes "m_status k = Uninitialized \<or> m_status k = Exited"
  shows "start k =
     (next_promise k,
      k\<lparr>next_promise := Suc (next_promise k),
        effects := effects k @ [Emit_status Initializing, Create_session],
        m_status := Initializing,
        awaiting_session := awaiting_session k @ [next_promise k]\<rparr>)"
  using assms
  by (auto simp: start_def start_body_def setStatus_Initializing do_effect_def)

lemma start_args_eq:
  "start_args cf lf as k =
     (substituted_args cf lf as,
      k\<lparr>effects := effects k @ replicate (count_list as ''{log_file}'') (Write_file lf []),
        fs_existsSync := (if ''{log_file}'' \<in> set as then (fs_existsSync k)(lf := True)
                          else fs_existsSync k)\<rparr>)"
proof (induction as arbitrary: k)
  case Nil
  then show ?case by (simp add: substituted_args_def)
next
  case (Cons a as)
  show ?case
    by (simp add: Cons.IH substituted_args_def do_effect_def replicate_append_same Let_def)
qed

lemma start_after_session_eq:
  "start_after_session p sess k =
     k\<lparr>awaiting_session := remove1 p (awaiting_session k),
       fs_existsSync := (if ''{log_file}'' \<in> set (argv (m_spec k))
                         then (fs_existsSync k)(logFile (state sess) := True)
                         else fs_existsSync k),
       m_status := Starting,
       status_callbacks := [],
       effects := effects k
         @ replicate (count_list (argv (m_spec k)) ''{log_file}'') (Write_file (logFile (state sess)) [])
         @ Emit_status Starting # rejections (display_name (m_spec k)) Starting (status_callbacks k)
         @ [Append_line (Log_starting (display_name (m_spec k))
              (join '' '' (substituted_args (connectionFile (state sess)) (logFile (state sess))
                            (argv (m_spec k)))))]
         @ (case env (m_spec k) of Some e \<Rightarrow> [Append_line (Log_environment e)] | None \<Rightarrow> [])
         @ [Create_terminal (terminal_options k sess)],
       openTerminal_listeners := openTerminal_listeners k @ [(p, sess)]\<rparr>"
  by (simp add: start_after_session_def start_args_eq setStatus_other appendLine_def do_effect_def
        terminal_options_def Let_def split: option.splits)

lemma timer_fires_Deferred_start:
  assumes "find (\<lambda>t. fst t = h) (timers k) = Some (h, ms, Deferred_start p)"
  shows "timer_fires h k = start_body p (clearTimeout h k)"
  using assms by (simp add: timer_fires_def)

subsection \<open>Heartbeat\<close>

lemma heartbeat_eq:
  "heartbeat k =
     k\<lparr>clock_count := Suc (clock_count k),
       m_lastHeartbeat := getUTCMilliseconds (clock (host k) (clock_count k)),
       effects := effects k @ Append_line Log_send_heartbeat
                    # (case m_heartbeat k of Some s \<Rightarrow> [Heartbeat_hello] | None \<Rightarrow> []),
       timers := timers k @ [(next_timer k, heartbeat_seconds k * 1000, Heartbeat_timeout)],
       next_timer := Suc (next_timer k),
       m_heartbeatTimer := Some (next_timer k)\<rparr>"
  by (simp add: heartbeat_def new_Date_def appendLine_def do_effect_def setTimeout_def
        heartbeat_seconds_def Let_def split: option.splits)

lemma onHeartbeat_eq:
  "onHeartbeat msg k =
     k\<lparr>clock_count := (if m_lastHeartbeat k \<noteq> 0 then Suc (clock_count k) else clock_count k),
       effects := effects k @
         (if m_lastHeartbeat k \<noteq> 0
          then [Append_line (Log_heartbeat_received
                  (int (getUTCMilliseconds (clock (host k) (clock_count k))) - int (m_lastHeartbeat k))
                  msg)]
          else []),
       timers := filter (\<lambda>t. Some (fst t) \<noteq> m_heartbeatTimer k) (timers k)
                   @ [(next_timer k, heartbeat_seconds k * 1000, Next_heartbeat)],
       next_timer := Suc (next_timer k),
       m_nextHeartbeat := Some (next_timer k)\<rparr>"
  by (simp add: onHeartbeat_def new_Date_def appendLine_def do_effect_def setTimeout_def
        clearTimeout_def heartbeat_seconds_def Let_def split: option.splits)

text \<open>
  A reply on the heartbeat socket never changes the state or emits a status, and it is
  written to the log exactly when the recorded millisecond field is not 0.
\<close>

lemma onHeartbeat_status:
  "m_status (onHeartbeat msg k) = m_status k
   \<and> (\<forall>st. Emit_status st \<notin> set (effects_since k (onHeartbeat msg k)))
   \<and> (effects (onHeartbeat msg k) = effects k \<longleftrightarrow> m_lastHeartbeat k = 0)"
  by (simp add: onHeartbeat_eq effects_since_def)

text \<open>
  The timer that \<open>heartbeat()\<close> sets: when it fires the state becomes \<open>Offline\<close> with one
  status event, and the timer has left the table, so it cannot fire again.
\<close>

lemma heartbeat_timeout_fires:
  assumes "find (\<lambda>t. fst t = h) (timers k) = Some (h, ms, Heartbeat_timeout)"
  shows "timer_fires h k =
     k\<lparr>timers := filter (\<lambda>t. fst t \<noteq> h) (timers k),
       m_status := Offline, status_callbacks := [],
       effects := effects k @ Emit_status Offline
                    # rejections (display_name (m_spec k)) Offline (status_callbacks k)\<rparr>"
    and "timer_fires h (timer_fires h k) = timer_fires h k"
proof -
  show first: "timer_fires h k =
     k\<lparr>timers := filter (\<lambda>t. fst t \<noteq> h) (timers k),
       m_status := Offline, status_callbacks := [],
       effects := effects k @ Emit_status Offline
                    # rejections (display_name (m_spec k)) Offline (status_callbacks k)\<rparr>"
    using assms by (simp add: timer_fires_def setStatus_other clearTimeout_def)
  have "find (\<lambda>t. fst t = h) (filter (\<lambda>t. fst t \<noteq> h) (timers k)) = None"
    by (simp add: find_None_iff)
  then show "timer_fires h (timer_fires h k) = timer_fires h k"
    unfolding first by (simp add: timer_fires_def)
qed

lemma initial_heartbeat_eq:
  assumes "m_heartbeat k = Some s" and "once_message s" and "\<not> on_message s"
    and "status_callbacks k = []" and "\<not> m_lsp k"
  shows "heartbeat_onMessage msg k =
     k\<lparr>m_heartbeat := Some (s\<lparr>once_message := False, on_message := True\<rparr>),
       m_status := Ready,
       clock_count := Suc (clock_count k),
       m_lastHeartbeat := getUTCMilliseconds (clock (host k) (clock_count k)),
       timers := timers k @ [(next_timer k, heartbeat_seconds k * 1000, Heartbeat_timeout)],
       next_timer := Suc (next_timer k),
       m_heartbeatTimer := Some (next_timer k),
       effects := effects k @
         [Append_line (Log_initial_heartbeat msg), Emit_status Ready,
          Append_line (Log_heartbeat_check (heartbeat_seconds k)),
          Append_line Log_send_heartbeat, Heartbeat_hello]\<rparr>"
  using assms
  by (simp add: heartbeat_onMessage_def connectToTerminal_initial_heartbeat_def heartbeat_eq
        setStatus_eq onStatusChange_def appendLine_def do_effect_def heartbeat_seconds_def Let_def)

lemma example_ready_reached: "heartbeat_onMessage ''hello'' example_connected = example_ready"
proof -
  have "m_heartbeat example_connected =
      Some \<lparr>title = ''Heartbeat'', zmq_type = ''req'', zmq_identity = None,
            on_message = False, once_message = True\<rparr>"
    "status_callbacks example_connected = []" "\<not> m_lsp example_connected"
    by (simp_all add: example_connected_def)
  then have "heartbeat_onMessage ''hello'' example_connected =
     example_connected
       \<lparr>m_heartbeat := Some \<lparr>title = ''Heartbeat'', zmq_type = ''req'', zmq_identity = None,
            on_message = True, once_message = False\<rparr>,
        m_status := Ready,
        clock_count := Suc (clock_count example_connected),
        m_lastHeartbeat := getUTCMilliseconds (clock (host example_connected) (clock_count example_connected)),
        timers := timers example_connected
          @ [(next_timer example_connected, heartbeat_seconds example_connected * 1000, Heartbeat_timeout)],
        next_timer := Suc (next_timer example_connected),
        m_heartbeatTimer := Some (next_timer example_connected),
        effects := effects example_connected @
          [Append_line (Log_initial_heartbeat ''hello''), Emit_status Ready,
           Append_line (Log_heartbeat_check (heartbeat_seconds example_connected)),
           Append_line Log_send_heartbeat, Heartbeat_hello]\<rparr>"
    by (simp add: initial_heartbeat_eq)
  moreover have "clock_count example_connected = 0" "host example_connected = example_host"
    "timers example_connected = []" "next_timer example_connected = 0"
    "effects example_connected = []"
    by (simp_all add: example_connected_def)
  ultimately show ?thesis
    by (simp add: example_ready_def heartbeat_seconds_def example_host_def)
qed

subsection \<open>Restarting\<close>

text \<open>
  \<open>restart\<close> registers its \<open>exit\<close> listener only on a process, and no supervisor has one:
  the constructor sets \<open>_process\<close> to null and nothing assigns it.
\<close>

lemma sendToSocket_frame:
  "exit_listeners (snd (sendToSocket u t dest parent body k)) = exit_listeners k"
  "m_process (snd (sendToSocket u t dest parent body k)) = m_process k"
  "m_status (snd (sendToSocket u t dest parent body k)) = m_status k"
  "status_callbacks (snd (sendToSocket u t dest parent body k)) = status_callbacks k"
  by (cases dest;
      simp add: sendToSocket_def generateMessageHeader_def new_Date_def appendLine_def
        do_effect_def Let_def split: option.splits)+

lemma shutdown_frame:
  "exit_listeners (snd (shutdown b k)) = exit_listeners k"
  "m_process (snd (shutdown b k)) = m_process k"
  "m_status (snd (shutdown b k)) = Exiting"
  by (simp_all add: shutdown_def uuidv4_def send_def sendToSocket_frame setStatus_frame Let_def)

lemma restart_no_process:
  assumes "m_process k = None"
  shows "exit_listeners (snd (restart k)) = exit_listeners k"
    and "m_status (snd (restart k)) = Exiting"
proof -
  obtain e k2 where r: "shutdown True (setStatus Exiting k) = (e, k2)"
    by (cases "shutdown True (setStatus Exiting k)")
  from shutdown_frame [of True "setStatus Exiting k"] r assms
  have k2: "exit_listeners k2 = exit_listeners k" "m_process k2 = None" "m_status k2 = Exiting"
    by (simp_all add: setStatus_frame)
  from r k2 show "exit_listeners (snd (restart k)) = exit_listeners k"
    and "m_status (snd (restart k)) = Exiting"
    by (cases e; simp add: restart_def Let_def)+
qed

lemma restart_connected:
  assumes "m_session k = Some sess" and "m_control k = Some sock" and "m_process k = None"
    and "status_callbacks k = []"
  shows "restart k =
     (None,
      k\<lparr>m_status := Exiting, uuid_count := Suc (uuid_count k), clock_count := Suc (clock_count k),
        effects := effects k @
          [Emit_status Exiting, Emit_status Exiting,
           Append_line (Log_send ''shutdown_request'' (title sock)
             (outbound (uuids (host k) (uuid_count k)) ''shutdown_request'' Empty_object
                (Shutdown_request True) sess k)),
           Socket_send Control
             (outbound (uuids (host k) (uuid_count k)) ''shutdown_request'' Empty_object
                (Shutdown_request True) sess k)
             (key sess)]\<rparr>)"
  using assms
  by (simp add: restart_def shutdown_def setStatus_other rejections_def uuidv4_def send_def
        sendToSocket_connected outbound_def Let_def)

lemma heartbeat_onMessage_listening:
  assumes "m_heartbeat k = Some s" and "\<not> once_message s" and "on_message s"
  shows "heartbeat_onMessage msg k = onHeartbeat msg k"
  using assms by (simp add: heartbeat_onMessage_def)

lemma JupyterKernel_new_no_process:
  "m_process (JupyterKernel_new h store open_terminals terminal_objects files kspec runtimeId lsp) = None"
  by (simp add: JupyterKernel_new_def reconnect_def setStatus_Initializing appendLine_def
        do_effect_def Let_def split: option.splits)

lemma process_exit_no_listener:
  assumes "exit_listeners k = []"
  shows "process_exit pr k = k"
  using assms by (simp add: process_exit_def)

subsection \<open>The invariant of the event loop\<close>

lemma quiet_refl [simp]: "quiet k k"
  by (simp add: quiet_def)

lemma quiet_trans: "quiet k k' \<Longrightarrow> quiet k' k'' \<Longrightarrow> quiet k k''"
  by (simp add: quiet_def)

lemma quiet_settles: "quiet k k' \<Longrightarrow> settles k k'"
  by (simp add: settles_def)

lemma settles_trans:
  assumes "settles k k'" and "settles k' k''"
  shows "settles k k''"
proof -
  consider (qq) "quiet k k'" "quiet k' k''"
    | (qs) "quiet k k'" "\<not> quiet k' k''"
    | (sq) "\<not> quiet k k'" "quiet k' k''"
    | (ss) "\<not> quiet k k'" "\<not> quiet k' k''"
    by blast
  then show ?thesis
  proof cases
    case qq
    then show ?thesis by (simp add: settles_def quiet_def)
  next
    case qs
    with assms(2) show ?thesis by (auto simp: settles_def quiet_def)
  next
    case sq
    with assms(1) show ?thesis by (auto simp: settles_def quiet_def)
  next
    case ss
    with assms obtain s1 s2 where
      s1: "s1 \<noteq> []" "Initializing \<notin> set s1"
        "transitions k' = transitions k @ map Emit_status s1"
      and s2: "s2 \<noteq> []" "Initializing \<notin> set s2" "m_status k'' = last s2"
        "transitions k'' = transitions k' @ map Emit_status s2"
      and fr: "m_process k'' = m_process k" "exit_listeners k'' = exit_listeners k"
        "status_callbacks k'' = []"
      by (auto simp: settles_def)
    have "s1 @ s2 \<noteq> [] \<and> Initializing \<notin> set (s1 @ s2) \<and> m_status k'' = last (s1 @ s2)
        \<and> transitions k'' = transitions k @ map Emit_status (s1 @ s2)"
      using s1 s2 by simp
    with fr show ?thesis
      unfolding settles_def by blast
  qed
qed

lemma setStatus_settles:
  assumes "st \<noteq> Initializing"
  shows "settles k (setStatus st k)"
proof -
  have "[st] \<noteq> [] \<and> Initializing \<notin> set [st] \<and> m_status (setStatus st k) = last [st]
      \<and> transitions (setStatus st k) = transitions k @ map Emit_status [st]"
    using assms by (simp add: setStatus_frame transitions_setStatus)
  moreover have "m_process (setStatus st k) = m_process k"
    "exit_listeners (setStatus st k) = exit_listeners k" "status_callbacks (setStatus st k) = []"
    using assms by (simp_all add: setStatus_frame setStatus_callbacks)
  ultimately show ?thesis
    unfolding settles_def by blast
qed

lemma fold_settles:
  assumes "\<And>x k. settles k (f x k)"
  shows "settles k (fold f xs k)"
proof (induction xs arbitrary: k)
  case Nil
  then show ?case by (simp add: quiet_settles)
next
  case (Cons x xs)
  show ?case
    using settles_trans [OF assms [of k x] Cons.IH [of "f x k"]] by simp
qed

lemma fold_quiet:
  assumes "\<And>x k. quiet k (f x k)"
  shows "quiet k (fold f xs k)"
proof (induction xs arbitrary: k)
  case Nil
  then show ?case by simp
next
  case (Cons x xs)
  show ?case
    using quiet_trans [OF assms [of k x] Cons.IH [of "f x k"]] by simp
qed

lemma settles_refl [simp]: "settles k k"
  by (simp add: settles_def)

lemma settles_quiet: "settles k k' \<Longrightarrow> quiet k' k'' \<Longrightarrow> settles k k''"
  using settles_trans quiet_settles by blast

text \<open>The handlers that leave the state machine alone.\<close>

lemma quiet_update:
  "quiet k (k\<lparr>m_logTail := x0\<rparr>)"
  "quiet k (k\<lparr>m_control := x1\<rparr>)"
  "quiet k (k\<lparr>m_shell := x2\<rparr>)"
  "quiet k (k\<lparr>m_stdin := x3\<rparr>)"
  "quiet k (k\<lparr>m_iopub := x4\<rparr>)"
  "quiet k (k\<lparr>m_heartbeat := x5\<rparr>)"
  "quiet k (k\<lparr>m_inputRequests := x6\<rparr>)"
  "quiet k (k\<lparr>m_heartbeatTimer := x7\<rparr>)"
  "quiet k (k\<lparr>m_nextHeartbeat := x8\<rparr>)"
  "quiet k (k\<lparr>m_lastHeartbeat := x9\<rparr>)"
  "quiet k (k\<lparr>m_session := x10\<rparr>)"
  "quiet k (k\<lparr>m_terminal := x11\<rparr>)"
  "quiet k (k\<lparr>m_lspCommId := x12\<rparr>)"
  "quiet k (k\<lparr>closeTerminal_listeners := x13\<rparr>)"
  "quiet k (k\<lparr>openTerminal_listeners := x14\<rparr>)"
  "quiet k (k\<lparr>timers := x15\<rparr>)"
  "quiet k (k\<lparr>next_timer := x16\<rparr>)"
  "quiet k (k\<lparr>next_promise := x17\<rparr>)"
  "quiet k (k\<lparr>awaiting_session := x18\<rparr>)"
  "quiet k (k\<lparr>awaiting_processId := x19\<rparr>)"
  "quiet k (k\<lparr>awaiting_connect := x20\<rparr>)"
  "quiet k (k\<lparr>awaiting_scan := x21\<rparr>)"
  "quiet k (k\<lparr>awaiting_port := x22\<rparr>)"
  "quiet k (k\<lparr>uuid_count := x23\<rparr>)"
  "quiet k (k\<lparr>clock_count := x24\<rparr>)"
  "quiet k (k\<lparr>workspaceState := x25\<rparr>)"
  "quiet k (k\<lparr>window_terminals := x26\<rparr>)"
  "quiet k (k\<lparr>terminal_at := x27\<rparr>)"
  "quiet k (k\<lparr>fs_existsSync := x28\<rparr>)"
  by (simp_all add: quiet_def transitions_def)

lemma quiet_do_effect: "\<not> is_status e \<Longrightarrow> quiet k (do_effect e k)"
  by (simp add: quiet_def transitions_def do_effect_def)

lemma quiet_appendLine: "quiet k (appendLine l k)"
  by (simp add: appendLine_def quiet_do_effect)

lemmas quiet_basic =
  quiet_update [THEN [2] quiet_trans] quiet_do_effect [THEN [2] quiet_trans]
  quiet_appendLine [THEN [2] quiet_trans]
  quiet_update [THEN [2] settles_quiet] quiet_do_effect [THEN [2] settles_quiet]
  quiet_appendLine [THEN [2] settles_quiet]

lemmas host_defs = uuidv4_def new_Date_def setTimeout_def clearTimeout_def Let_def case_prod_beta

lemma sendToSocket_quiet: "quiet k (snd (sendToSocket u t dest parent body k))"
  by (auto simp: sendToSocket_def generateMessageHeader_def host_defs
        split: option.splits sum.splits intro!: quiet_basic)

lemma send_quiet: "quiet k (snd (send u t dest body k))"
  by (simp add: send_def sendToSocket_quiet)

lemmas send_rel =
  sendToSocket_quiet [THEN [2] quiet_trans] send_quiet [THEN [2] quiet_trans]
  sendToSocket_quiet [THEN [2] settles_quiet] send_quiet [THEN [2] settles_quiet]

lemma comm_quiet:
  "quiet k (snd (closeComm i k))"
  "quiet k (snd (openComm t i d k))"
  "quiet k (snd (sendCommMessage i d k))"
  "quiet k (snd (startLsp a k))"
  "quiet k (sendToSocket_callback t err k)"
  by (auto simp: closeComm_def openComm_def sendCommMessage_def startLsp_def
        sendToSocket_callback_def host_defs split: option.splits intro!: quiet_basic send_rel)

lemma disposal_quiet:
  "quiet k (dispose_socket ch k)"
  "quiet k (disposeHeartbeatTimers k)"
  "quiet k (logTail_unwatch k)"
  by (auto simp: dispose_socket_def disposeHeartbeatTimers_def logTail_unwatch_def host_defs
        split: option.splits intro!: quiet_basic)

lemma disposeAllSockets_quiet: "quiet k (disposeAllSockets k)"
  by (auto simp: disposeAllSockets_def Let_def
        intro!: quiet_basic disposal_quiet(1) [THEN [2] quiet_trans])

lemma dispose_quiet: "quiet k (snd (dispose k))"
  by (auto simp: dispose_def host_defs split: option.splits
        intro!: quiet_basic comm_quiet(1) [THEN [2] quiet_trans]
          disposal_quiet [THEN [2] quiet_trans] disposeAllSockets_quiet [THEN [2] quiet_trans])

lemma heartbeat_quiet: "quiet k (heartbeat k)"
  by (auto simp: heartbeat_def host_defs split: option.splits intro!: quiet_basic)

lemma onHeartbeat_quiet: "quiet k (onHeartbeat msg k)"
  by (auto simp: onHeartbeat_def host_defs split: option.splits intro!: quiet_basic)

lemma emitMessage_quiet: "quiet k (emitMessage sock msg k)"
  by (auto simp: emitMessage_def Let_def intro!: quiet_basic)

lemma inbound_quiet:
  "quiet k (iopub_onMessage decoded k)"
  "quiet k (shell_onMessage decoded k)"
  "quiet k (stdin_onMessage decoded k)"
  "quiet k (logTail_onLine data k)"
  "quiet k (execute_catch c i err k)"
  "quiet k (onStatusChange_lsp_connected k)"
  by (auto simp: iopub_onMessage_def shell_onMessage_def stdin_onMessage_def logTail_onLine_def
        execute_catch_def onStatusChange_lsp_connected_def Let_def split: option.splits
        intro!: quiet_basic emitMessage_quiet [THEN [2] quiet_trans])

lemma streamLogFileToChannel_quiet: "quiet k (streamLogFileToChannel p k)"
  by (auto simp: streamLogFileToChannel_def Let_def intro!: quiet_basic)

lemma connect_quiet: "quiet k (snd (connect p k))"
  by (auto simp: connect_def Let_def split: option.splits intro!: quiet_basic)

lemma connectToTerminal_quiet: "quiet k (connectToTerminal terminal sess p k)"
  by (auto simp: connectToTerminal_def host_defs split: option.splits
        intro!: quiet_basic connect_quiet [THEN [2] quiet_trans]
          streamLogFileToChannel_quiet [THEN [2] quiet_trans])

lemma connected_quiet:
  "quiet k (connectToTerminal_connected p k)"
  "quiet k (connectToTerminal_connect_failed p e k)"
  "quiet k (start_session_failed q e k)"
  "quiet k (reconnect_processId_then sessionState terminal k)"
  by (auto simp: connectToTerminal_connected_def connectToTerminal_connect_failed_def
        start_session_failed_def reconnect_processId_then_def Let_def split: option.splits
        intro!: quiet_basic)

lemma start_onDidOpenTerminal_quiet: "quiet k (start_onDidOpenTerminal t k)"
  unfolding start_onDidOpenTerminal_def
  by (rule fold_quiet) (auto intro!: quiet_basic)

lemma start_processId_then_quiet: "quiet k (start_processId_then p sess t k)"
  by (auto simp: start_processId_then_def Let_def split: option.splits
        intro!: quiet_basic connectToTerminal_quiet [THEN [2] quiet_trans])

lemma start_args_quiet: "quiet k (snd (start_args cf lf as k))"
proof (induction as arbitrary: k)
  case Nil
  then show ?case by simp
next
  case (Cons a as)
  have "quiet k ((do_effect (Write_file lf []) k)\<lparr>fs_existsSync := (fs_existsSync k)(lf := True)\<rparr>)"
    by (auto intro!: quiet_basic)
  from quiet_trans [OF this Cons.IH] Cons.IH [of k] show ?case
    by (simp add: case_prod_beta Let_def)
qed

lemma requests_quiet:
  "quiet k (snd (execute c i mode errorBehavior k))"
  "quiet k (snd (replyToPrompt i v k))"
  "quiet k (snd (sendMessage packet k))"
  "quiet k (onStatusChange_port port k)"
  by (auto simp: execute_def replyToPrompt_def sendMessage_def onStatusChange_port_def host_defs
        split: option.splits
        intro!: quiet_basic send_rel comm_quiet(4) [THEN [2] quiet_trans])

text \<open>The handlers that change the state, to one other than \<open>Initializing\<close>.\<close>

lemma setStatus_rel:
  "st \<noteq> Initializing \<Longrightarrow> settles k k0 \<Longrightarrow> settles k (setStatus st k0)"
  using settles_trans setStatus_settles by blast

lemmas settles_basic = quiet_basic send_rel setStatus_rel

lemma requests_settle:
  "settles k (snd (shutdown r k))"
  "settles k (snd (interrupt k))"
  by (auto simp: shutdown_def interrupt_def host_defs intro!: settles_basic)

lemma restart_settles:
  assumes "m_process k = None"
  shows "settles k (snd (restart k))"
proof -
  have p: "m_process (snd (shutdown True (setStatus Exiting k))) = None"
    using assms shutdown_frame [of True "setStatus Exiting k"] by (simp add: setStatus_frame)
  have "snd (restart k) = snd (shutdown True (setStatus Exiting k))"
    using p by (simp add: restart_def Let_def case_prod_beta split: option.splits)
  moreover have "settles k (snd (shutdown True (setStatus Exiting k)))"
    by (rule settles_trans [OF setStatus_settles requests_settle(1)]) simp
  ultimately show ?thesis by simp
qed

lemma onDidCloseTerminal_settles:
  "settles k (connectToTerminal_onDidCloseTerminal terminal closedTerminal k)"
  by (auto simp: connectToTerminal_onDidCloseTerminal_def Let_def split: option.splits
        intro!: settles_basic)

lemma initial_heartbeat_settles: "settles k (connectToTerminal_initial_heartbeat msg k)"
  by (auto simp: connectToTerminal_initial_heartbeat_def Let_def split: option.splits
        intro!: settles_basic settles_quiet [OF _ heartbeat_quiet])

lemma heartbeat_onMessage_settles: "settles k (heartbeat_onMessage msg k)"
proof (cases "m_heartbeat k")
  case None
  then show ?thesis by (simp add: heartbeat_onMessage_def quiet_settles)
next
  case (Some s)
  define k1 where "k1 = (if once_message s
      then connectToTerminal_initial_heartbeat msg (k\<lparr>m_heartbeat := Some (s\<lparr>once_message := False\<rparr>)\<rparr>)
      else k)"
  have k1: "settles k k1"
    unfolding k1_def
    by (auto intro!: quiet_settles
          settles_trans [OF quiet_settles [OF quiet_update(6)] initial_heartbeat_settles])
  have "heartbeat_onMessage msg k = (if on_message s then onHeartbeat msg k1 else k1)"
    using Some by (simp add: heartbeat_onMessage_def k1_def Let_def)
  with k1 settles_quiet [OF k1 onHeartbeat_quiet] show ?thesis by simp
qed

lemma start_after_session_settles: "settles k (start_after_session p sess k)"
  by (auto simp: start_after_session_def Let_def case_prod_beta split: option.splits
        intro!: settles_basic settles_quiet [OF _ start_args_quiet])

lemma reconnect_then_settles: "settles k (reconnect_then sessionState ts k)"
proof -
  have "quiet k (fold (reconnect_processId_then sessionState) ts
      (k\<lparr>awaiting_scan := remove1 (sessionState, ts) (awaiting_scan k)\<rparr>))"
    by (rule quiet_trans [OF quiet_update(22) fold_quiet]) (rule connected_quiet(4))
  from quiet_settles [OF this] show ?thesis
    by (auto simp: reconnect_then_def host_defs split: list.splits intro!: settles_basic)
qed

text \<open>\<open>start()\<close>, and the timers.\<close>

lemma start_body_starts:
  assumes "quiet k k0"
  shows "starts k (start_body p k0)"
proof -
  consider (deferred) "m_status k0 = Initializing"
    | (ignored) "m_status k0 \<noteq> Initializing" "m_status k0 \<noteq> Uninitialized \<and> m_status k0 \<noteq> Exited"
    | (started) "m_status k0 = Uninitialized \<or> m_status k0 = Exited"
    by auto
  then show ?thesis
  proof cases
    case deferred
    with assms show ?thesis
      by (simp add: starts_def quiet_def transitions_def start_body_def appendLine_def
            do_effect_def Let_def)
  next
    case ignored
    then have "quiet k0 (start_body p k0)"
      by (auto simp: start_body_def Let_def intro!: quiet_basic)
    from quiet_trans [OF assms this] show ?thesis
      by (simp add: starts_def quiet_def)
  next
    case started
    define k1 where "k1 = setStatus Initializing k0"
    have k1: "m_process k1 = m_process k0" "exit_listeners k1 = exit_listeners k0"
      "m_status k1 = Initializing" "status_callbacks k1 = status_callbacks k0"
      "transitions k1 = transitions k0 @ [Emit_status Initializing]"
      by (simp_all add: k1_def setStatus_frame setStatus_callbacks transitions_setStatus)
    have "start_body p k0 = (do_effect Create_session k1)\<lparr>awaiting_session :=
        awaiting_session (do_effect Create_session k1) @ [p]\<rparr>"
      using started by (auto simp: start_body_def Let_def k1_def)
    moreover have "quiet k1 ((do_effect Create_session k1)\<lparr>awaiting_session :=
        awaiting_session (do_effect Create_session k1) @ [p]\<rparr>)"
      by (auto intro!: quiet_basic)
    ultimately have "quiet k1 (start_body p k0)"
      by simp
    with k1 assms started have "m_process (start_body p k0) = m_process k"
      "exit_listeners (start_body p k0) = exit_listeners k"
      "m_status k = Uninitialized \<or> m_status k = Exited"
      "m_status (start_body p k0) = Initializing"
      "status_callbacks (start_body p k0) = status_callbacks k"
      "transitions (start_body p k0) = transitions k @ [Emit_status Initializing]"
      by (simp_all add: quiet_def)
    then show ?thesis
      unfolding starts_def by blast
  qed
qed

lemma start_starts: "starts k (snd (start k))"
  by (simp add: start_def start_body_starts quiet_update)

lemma timer_fires_outcome: "settles k (timer_fires h k) \<or> starts k (timer_fires h k)"
proof (cases "find (\<lambda>t. fst t = h) (timers k)")
  case None
  then show ?thesis by (simp add: timer_fires_def quiet_settles)
next
  case (Some t)
  have c: "quiet k (clearTimeout h k)"
    by (simp add: clearTimeout_def quiet_update)
  show ?thesis
  proof (cases "snd (snd t)")
    case (Deferred_start p)
    with Some start_body_starts [OF c] show ?thesis
      by (simp add: timer_fires_def Let_def)
  next
    case (Reconnect_connect terminal sessionState)
    have "settles k (connectToTerminal terminal (new_JupyterSession sessionState) None
        (setStatus Starting (clearTimeout h k)))"
      by (rule settles_quiet [OF setStatus_rel [OF _ quiet_settles [OF c]] connectToTerminal_quiet])
         simp
    with Some Reconnect_connect show ?thesis
      by (simp add: timer_fires_def Let_def)
  next
    case Heartbeat_timeout
    have "settles k (setStatus Offline (clearTimeout h k))"
      by (rule setStatus_rel [OF _ quiet_settles [OF c]]) simp
    with Some Heartbeat_timeout show ?thesis
      by (simp add: timer_fires_def Let_def)
  next
    case Next_heartbeat
    with Some quiet_settles [OF quiet_trans [OF c heartbeat_quiet]] show ?thesis
      by (simp add: timer_fires_def Let_def)
  qed
qed

lemma process_exit_quiet:
  assumes "exit_listeners k = []"
  shows "quiet k (process_exit pr k)"
  using assms by (simp add: process_exit_def quiet_def transitions_def)

text \<open>One turn of the event loop, for a supervisor without a process.\<close>

lemma step_outcome:
  assumes "m_process k = None" and "exit_listeners k = []"
  shows "settles k (step e k) \<or> starts k (step e k)"
proof (cases e)
  case Call_start
  then show ?thesis by (simp add: step_def start_starts)
next
  case Call_restart
  then show ?thesis by (simp add: step_def restart_settles [OF assms(1)])
next
  case (Terminal_closed t)
  have "settles k (fold (\<lambda>terminal. connectToTerminal_onDidCloseTerminal terminal t)
      (closeTerminal_listeners k) k)"
    by (rule fold_settles) (rule onDidCloseTerminal_settles)
  with Terminal_closed show ?thesis by (simp add: step_def)
next
  case (Timer_fired h)
  then show ?thesis by (simp add: step_def timer_fires_outcome)
next
  case (Process_exited pr)
  then show ?thesis by (simp add: step_def quiet_settles [OF process_exit_quiet [OF assms(2)]])
qed (simp_all add: step_def quiet_settles requests_settle comm_quiet dispose_quiet inbound_quiet
      connected_quiet start_onDidOpenTerminal_quiet start_processId_then_quiet requests_quiet
      start_after_session_settles reconnect_then_settles heartbeat_onMessage_settles
      quiet_update)

lemma invariant_step:
  assumes "invariant k"
  shows "invariant (step e k)"
proof -
  from assms have p: "m_process k = None" "exit_listeners k = []"
    and c: "status_callbacks k = [] \<or> m_status k = Initializing"
    by (simp_all add: invariant_def)
  from step_outcome [OF p, of e] c p show ?thesis
    by (auto simp: invariant_def settles_def starts_def quiet_def)
qed

lemma invariant_run: "invariant k \<Longrightarrow> invariant (run es k)"
  unfolding run_def by (induction es arbitrary: k) (simp_all add: invariant_step)

lemma invariant_new:
  "invariant (JupyterKernel_new h store open_terminals terminal_objects files kspec runtimeId lsp)"
  by (simp add: invariant_def JupyterKernel_new_def reconnect_def appendLine_def do_effect_def
        setStatus_frame setStatus_callbacks Let_def split: option.splits)

lemma invariant_reachable:
  "invariant (run es
     (JupyterKernel_new h store open_terminals terminal_objects files kspec runtimeId lsp))"
  by (rule invariant_run [OF invariant_new])

text \<open>
  While a deferred start is subscribed, the supervisor is \<open>Initializing\<close> and no turn of
  the event loop emits \<open>Initializing\<close>.
\<close>

lemma deferred_start_waits:
  assumes "invariant k" and "status_callbacks k \<noteq> []"
  shows "m_status k = Initializing"
    and "\<exists>sts. transitions (step e k) = transitions k @ map Emit_status sts
               \<and> Initializing \<notin> set sts"
proof -
  from assms show i: "m_status k = Initializing"
    by (auto simp: invariant_def)
  from assms have p: "m_process k = None" "exit_listeners k = []"
    by (simp_all add: invariant_def)
  from step_outcome [OF p, of e]
  consider "quiet k (step e k)" | "\<not> quiet k (step e k)" "settles k (step e k)"
    | "m_status k = Initializing" "transitions (step e k) = transitions k"
    using i by (auto simp: starts_def)
  then show "\<exists>sts. transitions (step e k) = transitions k @ map Emit_status sts
               \<and> Initializing \<notin> set sts"
  proof cases
    case 1
    then have "transitions (step e k) = transitions k @ map Emit_status [] \<and> Initializing \<notin> set []"
      by (simp add: quiet_def)
    then show ?thesis by blast
  next
    case 2
    then show ?thesis by (auto simp: settles_def)
  next
    case 3
    then have "transitions (step e k) = transitions k @ map Emit_status [] \<and> Initializing \<notin> set []"
      by simp
    then show ?thesis by blast
  qed
qed

subsection \<open>Claims\<close>

text \<open>
  C4. \<open>execute(code, id, mode, errorBehavior)\<close>, on a supervisor that holds a session and
  a shell socket, sends on the shell channel one \<open>execute_request\<close> with the given id, whose
  content has the given code, \<open>allow_stdin\<close> true iff the mode is not \<open>Silent\<close>, \<open>silent\<close>
  true iff it is \<open>Silent\<close>, \<open>store_history\<close> true iff it is \<open>Interactive\<close>, and
  \<open>stop_on_error\<close> true iff the error behaviour is \<open>Stop\<close>; \<open>user_expressions\<close> is
  always empty.
\<close>

theorem execute_request_content:
  assumes "m_session k = Some sess" and "m_shell k = Some sock"
  shows "execute c i mode errorBehavior k =
           (let msg = outbound i ''execute_request'' Empty_object
                        (Execute_request
                           \<lparr>code = c,
                            allow_stdin = (mode \<noteq> Silent),
                            silent = (mode = Silent),
                            store_history = (mode = Interactive),
                            user_expressions = [],
                            stop_on_error = (errorBehavior = Stop)\<rparr>) sess k
            in (None, k\<lparr>clock_count := Suc (clock_count k),
                         effects := effects k @
                           [Append_line (Log_send ''execute_request'' (title sock) msg),
                            Socket_send Shell msg (key sess)]\<rparr>))"
  using sendToSocket_connected [of k sess Shell sock] assms
  by (simp add: execute_def send_def Let_def)

theorem execute_request_content_witness:
  "m_session example_ready = Some \<lparr>state = example_state\<rparr>
   \<and> m_shell example_ready \<noteq> None
   \<and> fst (execute ''1+1'' ''abc'' Interactive Stop example_ready) = None
   \<and> content (outbound ''abc'' ''execute_request'' Empty_object
          (Execute_request \<lparr>code = ''1+1'', allow_stdin = True, silent = False,
             store_history = True, user_expressions = [], stop_on_error = True\<rparr>)
          \<lparr>state = example_state\<rparr> example_ready)
       = Execute_request \<lparr>code = ''1+1'', allow_stdin = True, silent = False,
             store_history = True, user_expressions = [], stop_on_error = True\<rparr>
   \<and> effects (snd (execute ''1+1'' ''abc'' Interactive Stop example_ready)) =
       effects example_ready @
       [Append_line (Log_send ''execute_request'' ''Shell''
          (outbound ''abc'' ''execute_request'' Empty_object
             (Execute_request \<lparr>code = ''1+1'', allow_stdin = True, silent = False,
                store_history = True, user_expressions = [], stop_on_error = True\<rparr>)
             \<lparr>state = example_state\<rparr> example_ready)),
        Socket_send Shell
          (outbound ''abc'' ''execute_request'' Empty_object
             (Execute_request \<lparr>code = ''1+1'', allow_stdin = True, silent = False,
                store_history = True, user_expressions = [], stop_on_error = True\<rparr>)
             \<lparr>state = example_state\<rparr> example_ready)
          ''secret'']"
  using execute_request_content [OF example_ready_fields(2) example_ready_fields(3),
          of "''1+1''" "''abc''" Interactive Stop]
  by (simp add: example_ready_fields Let_def key_def example_state_def outbound_def)

text \<open>
  C8, as amended. \<open>start()\<close> from a state other than \<open>Uninitialized\<close>, \<open>Exited\<close> and
  \<open>Initializing\<close> writes one log line naming the current state and returns: its promise
  resolves, the state does not change and nothing is launched. The claim as stated, that
  the promise is rejected with the state attached, fails: see the counterexample below.
\<close>

theorem start_when_running_is_ignored:
  assumes "m_status k \<noteq> Uninitialized" and "m_status k \<noteq> Exited" and "m_status k \<noteq> Initializing"
  shows "start k =
           (next_promise k,
            k\<lparr>next_promise := Suc (next_promise k),
              effects := effects k @
                [Append_line (Log_start_ignoring (display_name (m_spec k)) (m_status k)),
                 Promise_resolved (next_promise k)]\<rparr>)"
  using assms by (simp add: start_def start_body_def appendLine_def do_effect_def)

theorem start_when_running_is_ignored_witness:
  "m_status example_ready \<noteq> Uninitialized \<and> m_status example_ready \<noteq> Exited
   \<and> m_status example_ready \<noteq> Initializing
   \<and> start example_ready =
         (1, example_ready\<lparr>next_promise := 2,
               effects := effects example_ready @
                 [Append_line (Log_start_ignoring ''R'' Ready), Promise_resolved 1]\<rparr>)"
  using start_when_running_is_ignored [of example_ready]
  by (simp add: example_ready_fields example_spec_def)

theorem start_when_ready_not_rejected:
  "m_status example_ready = Ready
   \<and> fst (start example_ready) = 1
   \<and> Promise_resolved 1 \<in> set (effects (snd (start example_ready)))
   \<and> Promise_rejected 1 (Kernel_already Ready) \<notin> set (effects (snd (start example_ready)))"
  by (simp add: start_def start_body_def appendLine_def do_effect_def example_ready_fields)

text \<open>
  C7. When the state changes to \<open>Exited\<close>, the persisted session state of the runtime id
  is deleted, the session is disposed, and the terminal is disposed unless it has an exit
  status. Then \<open>dispose()\<close> runs: unless closing an open LSP comm throws (which needs a comm
  id and a supervisor without session or shell socket), the log tail is unwatched, both
  heartbeat timers are cleared and their handles reset, and the five sockets are disposed
  and set to null.
\<close>

theorem exited_transition_cleanup:
  "m_status (setStatus Exited k) = Exited
   \<and> workspaceState (setStatus Exited k) = (workspaceState k)(m_runtimeId k := None)
   \<and> (\<forall>s. m_session k = Some s \<longrightarrow> Session_dispose s \<in> set (effects_since k (setStatus Exited k)))
   \<and> (\<forall>t. m_terminal k = Some t \<longrightarrow> exitStatus (terminal_at k t) = None
          \<longrightarrow> Terminal_dispose t \<in> set (effects_since k (setStatus Exited k)))
   \<and> (lsp_comm k = None \<or> (m_session k \<noteq> None \<and> m_shell k \<noteq> None) \<longrightarrow>
        (\<forall>tl. m_logTail k = Some tl \<longrightarrow>
             Tail_unwatch (tail_path tl) \<in> set (effects_since k (setStatus Exited k))
             \<and> m_logTail (setStatus Exited k) = Some (tl\<lparr>watching := False\<rparr>))
        \<and> m_heartbeatTimer (setStatus Exited k) = None
        \<and> m_nextHeartbeat (setStatus Exited k) = None
        \<and> timers (setStatus Exited k) =
            filter (\<lambda>t. Some (fst t) \<noteq> m_heartbeatTimer k \<and> Some (fst t) \<noteq> m_nextHeartbeat k) (timers k)
        \<and> (\<forall>ch. socket_of ch (setStatus Exited k) = None
               \<and> (socket_of ch k \<noteq> None \<longrightarrow>
                    Socket_dispose ch \<in> set (effects_since k (setStatus Exited k)))))"
  using setStatus_Exited_always [of k] setStatus_Exited_connection [of k] by blast

theorem exited_transition_cleanup_witness:
  "lsp_comm example_ready = None
   \<and> m_status (setStatus Exited example_ready) = Exited
   \<and> workspaceState (setStatus Exited example_ready) ''r-runtime'' = None
   \<and> Session_dispose \<lparr>state = example_state\<rparr>
        \<in> set (effects_since example_ready (setStatus Exited example_ready))
   \<and> Terminal_dispose 0 \<in> set (effects_since example_ready (setStatus Exited example_ready))
   \<and> Tail_unwatch ''/tmp/k.log'' \<in> set (effects_since example_ready (setStatus Exited example_ready))
   \<and> m_heartbeatTimer (setStatus Exited example_ready) = None
   \<and> timers (setStatus Exited example_ready) = []
   \<and> m_shell (setStatus Exited example_ready) = None
   \<and> m_heartbeat (setStatus Exited example_ready) = None
   \<and> Socket_dispose Shell \<in> set (effects_since example_ready (setStatus Exited example_ready))
   \<and> Socket_dispose Heartbeat \<in> set (effects_since example_ready (setStatus Exited example_ready))"
proof -
  have lsp: "lsp_comm example_ready = None"
    by (simp add: lsp_comm_def example_ready_fields)
  note t = exited_transition_cleanup [of example_ready]
  from t have a: "m_status (setStatus Exited example_ready) = Exited"
    "workspaceState (setStatus Exited example_ready) ''r-runtime'' = None"
    "Session_dispose \<lparr>state = example_state\<rparr>
        \<in> set (effects_since example_ready (setStatus Exited example_ready))"
    "Terminal_dispose 0 \<in> set (effects_since example_ready (setStatus Exited example_ready))"
    by (simp_all add: example_ready_fields example_terminal_def)
  from t lsp have b:
    "Tail_unwatch ''/tmp/k.log'' \<in> set (effects_since example_ready (setStatus Exited example_ready))"
    "m_heartbeatTimer (setStatus Exited example_ready) = None"
    "timers (setStatus Exited example_ready) = []"
    by (simp_all add: example_ready_fields)
  from t lsp have c: "socket_of ch (setStatus Exited example_ready) = None
               \<and> (socket_of ch example_ready \<noteq> None \<longrightarrow>
                    Socket_dispose ch \<in> set (effects_since example_ready (setStatus Exited example_ready)))"
    for ch by blast
  from c [of Shell] c [of Heartbeat] have d:
    "m_shell (setStatus Exited example_ready) = None"
    "m_heartbeat (setStatus Exited example_ready) = None"
    "Socket_dispose Shell \<in> set (effects_since example_ready (setStatus Exited example_ready))"
    "Socket_dispose Heartbeat \<in> set (effects_since example_ready (setStatus Exited example_ready))"
    by (simp_all add: example_ready_fields)
  from lsp a b d show ?thesis by simp
qed

text \<open>
  C10. The listener on \<open>onDidCloseTerminal\<close>, for a closed terminal bearing the kernel's
  display name when the terminal of the kernel has a defined exit code: while the state is
  \<open>Starting\<close> it writes the failure to the log and removes itself, and nothing else
  changes, so the state stays \<open>Starting\<close>; in any other state it sets the state to
  \<open>Exited\<close>, with the cleanup of that transition. \<open>Exited\<close> is emitted iff the state was
  not \<open>Starting\<close>.
\<close>

theorem terminal_close_while_starting:
  assumes "name (terminal_at k closedTerminal) = display_name (m_spec k)"
    and "exitStatus (terminal_at k terminal) = Some (Some c)"
  shows "(m_status k = Starting \<longrightarrow>
            connectToTerminal_onDidCloseTerminal terminal closedTerminal k =
              k\<lparr>effects := effects k @ [Append_line (Log_failed_to_start (display_name (m_spec k)) c)],
                closeTerminal_listeners := remove1 terminal (closeTerminal_listeners k)\<rparr>)
       \<and> (m_status k \<noteq> Starting \<longrightarrow>
            m_status (connectToTerminal_onDidCloseTerminal terminal closedTerminal k) = Exited
            \<and> workspaceState (connectToTerminal_onDidCloseTerminal terminal closedTerminal k)
                 (m_runtimeId k) = None)
       \<and> (Emit_status Exited
            \<in> set (effects_since k (connectToTerminal_onDidCloseTerminal terminal closedTerminal k))
          \<longleftrightarrow> m_status k \<noteq> Starting)"
proof (cases "m_status k = Starting")
  case True
  with assms show ?thesis
    by (simp add: connectToTerminal_onDidCloseTerminal_def appendLine_def do_effect_def
          effects_since_def)
next
  case False
  obtain E where E: "effects (setStatus Exited k) = effects k @ Emit_status Exited # E"
    using setStatus_effects by blast
  from False assms show ?thesis
    using setStatus_Exited_always [of k]
    by (simp add: connectToTerminal_onDidCloseTerminal_def appendLine_def do_effect_def
          effects_since_def E)
qed

theorem terminal_close_while_starting_witness:
  "name (terminal_at example_failed 0) = display_name (m_spec example_failed)
   \<and> exitStatus (terminal_at example_failed 0) = Some (Some 1)
   \<and> m_status example_failed = Starting
   \<and> connectToTerminal_onDidCloseTerminal 0 0 example_failed =
        example_failed\<lparr>effects := effects example_failed @
                          [Append_line (Log_failed_to_start ''R'' 1)],
                        closeTerminal_listeners := []\<rparr>
   \<and> m_status (connectToTerminal_onDidCloseTerminal 0 0 example_failed) = Starting
   \<and> Emit_status Exited
        \<notin> set (effects_since example_failed (connectToTerminal_onDidCloseTerminal 0 0 example_failed))"
proof -
  have h: "name (terminal_at example_failed 0) = display_name (m_spec example_failed)"
    "exitStatus (terminal_at example_failed 0) = Some (Some 1)"
    "m_status example_failed = Starting"
    by (simp_all add: example_failed_def example_ready_fields example_terminal_def example_spec_def)
  from terminal_close_while_starting [OF h(1,2)] h show ?thesis
    by (simp add: example_failed_def example_ready_fields example_spec_def effects_since_def)
qed

text \<open>
  C5. On a supervisor that holds a session and a stdin socket, \<open>replyToPrompt(id, v)\<close>
  for an id in the table of pending input requests sends on stdin an \<open>input_reply\<close> whose
  parent header is the recorded header, and removes the entry; for an id that is not in
  the table it sends the reply with the empty object as parent header and leaves the
  table as it is. An inbound \<open>input_request\<close> on stdin is recorded under its own \<open>msg_id\<close>,
  so the parent header of the reply carries the \<open>msg_id\<close> of the request.
\<close>

theorem replyToPrompt_parent_header:
  assumes "m_session k = Some sess" and "m_stdin k = Some sock"
  shows "(\<forall>parent. m_inputRequests k i = Some parent \<longrightarrow>
            replyToPrompt i v k =
              (None,
               k\<lparr>uuid_count := Suc (uuid_count k), clock_count := Suc (clock_count k),
                 m_inputRequests := (m_inputRequests k)(i := None),
                 effects := effects k @
                   [Append_line (Log_input_reply i v),
                    Append_line (Log_send ''input_reply'' (title sock)
                      (outbound (uuids (host k) (uuid_count k)) ''input_reply'' (Header parent)
                         (Input_reply v) sess k)),
                    Socket_send Stdin
                      (outbound (uuids (host k) (uuid_count k)) ''input_reply'' (Header parent)
                         (Input_reply v) sess k)
                      (key sess)]\<rparr>))
       \<and> (m_inputRequests k i = None \<longrightarrow>
            replyToPrompt i v k =
              (None,
               k\<lparr>uuid_count := Suc (uuid_count k), clock_count := Suc (clock_count k),
                 effects := effects k @
                   [Append_line (Log_input_no_parent i v),
                    Append_line (Log_send ''input_reply'' (title sock)
                      (outbound (uuids (host k) (uuid_count k)) ''input_reply'' Empty_object
                         (Input_reply v) sess k)),
                    Socket_send Stdin
                      (outbound (uuids (host k) (uuid_count k)) ''input_reply'' Empty_object
                         (Input_reply v) sess k)
                      (key sess)]\<rparr>))
       \<and> (\<forall>m. msg_type (header m) = ''input_request'' \<longrightarrow>
              m_inputRequests (stdin_onMessage (Some m) k) (msg_id (header m)) = Some (header m)
              \<and> m_session (stdin_onMessage (Some m) k) = m_session k
              \<and> m_stdin (stdin_onMessage (Some m) k) = m_stdin k)"
  using assms
  by (simp add: replyToPrompt_def uuidv4_def appendLine_def do_effect_def send_def
        sendToSocket_connected outbound_def stdin_onMessage_def emitMessage_eq Let_def)

theorem replyToPrompt_parent_header_witness:
  "m_session example_ready = Some \<lparr>state = example_state\<rparr>
   \<and> m_stdin example_ready \<noteq> None
   \<and> msg_type (header example_request) = ''input_request''
   \<and> m_inputRequests (stdin_onMessage (Some example_request) example_ready) ''req-1''
        = Some (header example_request)
   \<and> fst (replyToPrompt ''req-1'' ''42'' (stdin_onMessage (Some example_request) example_ready)) = None
   \<and> parent_header_of_reply
        (last (effects (snd (replyToPrompt ''req-1'' ''42''
           (stdin_onMessage (Some example_request) example_ready)))))
        = Some (Header (header example_request))
   \<and> m_inputRequests
        (snd (replyToPrompt ''req-1'' ''42'' (stdin_onMessage (Some example_request) example_ready)))
        ''req-1'' = None
   \<and> m_inputRequests example_ready ''req-2'' = None
   \<and> fst (replyToPrompt ''req-2'' ''42'' example_ready) = None
   \<and> parent_header_of_reply (last (effects (snd (replyToPrompt ''req-2'' ''42'' example_ready))))
        = Some Empty_object"
proof -
  let ?k = "stdin_onMessage (Some example_request) example_ready"
  note t = replyToPrompt_parent_header [OF example_ready_fields(2) example_ready_fields(4)]
  have r: "msg_type (header example_request) = ''input_request''"
    "msg_id (header example_request) = ''req-1''"
    by (simp_all add: example_request_def)
  from t [of "''req-2''" "''42''"] r(1) have rec:
    "m_inputRequests ?k (msg_id (header example_request)) = Some (header example_request)"
    "m_session ?k = Some \<lparr>state = example_state\<rparr>"
    "m_stdin ?k = m_stdin example_ready"
    by (simp_all add: example_ready_fields)
  note t2 = replyToPrompt_parent_header [OF rec(2) rec(3) [unfolded example_ready_fields(4)],
              of "''req-1''" "''42''"]
  from t2 rec(1) have found:
    "fst (replyToPrompt ''req-1'' ''42'' ?k) = None"
    "parent_header_of_reply (last (effects (snd (replyToPrompt ''req-1'' ''42'' ?k))))
       = Some (Header (header example_request))"
    "m_inputRequests (snd (replyToPrompt ''req-1'' ''42'' ?k)) ''req-1'' = None"
    by (simp_all add: r(2) outbound_def)
  from t [of "''req-2''" "''42''"] have missing:
    "fst (replyToPrompt ''req-2'' ''42'' example_ready) = None"
    "parent_header_of_reply (last (effects (snd (replyToPrompt ''req-2'' ''42'' example_ready))))
       = Some Empty_object"
    by (simp_all add: example_ready_fields outbound_def)
  from rec(1) r found missing show ?thesis
    by (simp add: example_ready_fields)
qed

text \<open>
  C6. A supervisor constructed over persisted session state is \<open>Initializing\<close> and waits
  for the process ids of the terminals open at that moment. During the scan every
  terminal that bears the kernel's display name and has another process id than the
  persisted one is disposed, whether or not some terminal matches. When no terminal has
  the persisted process id, the scan deletes the persisted state of the runtime id and
  the state returns to \<open>Uninitialized\<close>.
\<close>

theorem reconnect_without_terminal:
  assumes "store runtimeId = Some sessionState"
  shows "m_status (JupyterKernel_new h store open_terminals terminal_objects files kspec runtimeId lsp)
           = Initializing
       \<and> awaiting_scan (JupyterKernel_new h store open_terminals terminal_objects files kspec runtimeId lsp)
           = [(sessionState, open_terminals)]
       \<and> (\<forall>k ts. effects (fold (reconnect_processId_then sessionState) ts k) =
              effects k @
              map Terminal_dispose
                (filter (\<lambda>t. name (terminal_at k t) = display_name (m_spec k)
                             \<and> terminal_processId (terminal_at k t) \<noteq> processId sessionState) ts))
       \<and> ((\<forall>t \<in> set open_terminals. terminal_processId (terminal_objects t) \<noteq> processId sessionState) \<longrightarrow>
            m_status (reconnect_then sessionState open_terminals
               (JupyterKernel_new h store open_terminals terminal_objects files kspec runtimeId lsp))
              = Uninitialized
            \<and> workspaceState (reconnect_then sessionState open_terminals
               (JupyterKernel_new h store open_terminals terminal_objects files kspec runtimeId lsp))
              = store(runtimeId := None)
            \<and> effects (reconnect_then sessionState open_terminals
               (JupyterKernel_new h store open_terminals terminal_objects files kspec runtimeId lsp))
              = [Emit_status Initializing,
                 Append_line (Log_found_record (display_name kspec) (processId sessionState)
                                (length open_terminals))]
                @ map Terminal_dispose
                    (filter (\<lambda>t. name (terminal_objects t) = display_name kspec) open_terminals)
                @ [Append_line (Log_no_terminal runtimeId sessionState),
                   Emit_status Uninitialized])"
proof -
  let ?k0 = "JupyterKernel_new h store open_terminals terminal_objects files kspec runtimeId lsp"
  have k0: "?k0 =
      \<lparr>m_spec = kspec, m_runtimeId = runtimeId, m_lsp = lsp,
       m_process = None, m_logTail = None, m_status = Initializing,
       m_control = None, m_shell = None, m_stdin = None, m_iopub = None,
       m_heartbeat = None, m_inputRequests = Map.empty,
       m_heartbeatTimer = None, m_nextHeartbeat = None, m_lastHeartbeat = 0,
       m_session = None, m_terminal = None, m_lspCommId = None,
       status_callbacks = [], exit_listeners = [], closeTerminal_listeners = [],
       openTerminal_listeners = [], timers = [], next_timer = 0, next_promise = 0,
       awaiting_session = [], awaiting_processId = [], awaiting_connect = [],
       awaiting_scan = [(sessionState, open_terminals)], awaiting_port = 0,
       host = h, uuid_count = 0, clock_count = 0,
       workspaceState = store, window_terminals = open_terminals,
       terminal_at = terminal_objects, fs_existsSync = files,
       effects = [Emit_status Initializing,
                  Append_line (Log_found_record (display_name kspec) (processId sessionState)
                                 (length open_terminals))]\<rparr>"
    using assms
    by (simp add: JupyterKernel_new_def reconnect_def setStatus_Initializing appendLine_def
          do_effect_def)
  have scan: "(\<forall>t \<in> set open_terminals. terminal_processId (terminal_objects t) \<noteq> processId sessionState) \<Longrightarrow>
      filter (\<lambda>t. terminal_processId (terminal_objects t) = processId sessionState) open_terminals = []
      \<and> filter (\<lambda>t. name (terminal_objects t) = display_name kspec
                     \<and> terminal_processId (terminal_objects t) \<noteq> processId sessionState) open_terminals
        = filter (\<lambda>t. name (terminal_objects t) = display_name kspec) open_terminals"
    by (auto simp: filter_empty_conv intro: filter_cong)
  show ?thesis
    unfolding k0
    using scan
    by (auto simp: reconnect_then_def fold_reconnect_processId_then setStatus_Uninitialized
          appendLine_def do_effect_def deferred_timers_def Let_def)
qed

theorem reconnect_without_terminal_witness:
  "[''r-runtime'' \<mapsto> example_state] ''r-runtime'' = Some example_state
   \<and> terminal_processId (example_other_terminals 0) \<noteq> processId example_state
   \<and> terminal_processId (example_other_terminals 1) \<noteq> processId example_state
   \<and> m_status (reconnect_then example_state [0, 1]
        (JupyterKernel_new example_host [''r-runtime'' \<mapsto> example_state] [0, 1]
           example_other_terminals (\<lambda>f. False) example_spec ''r-runtime'' False)) = Uninitialized
   \<and> workspaceState (reconnect_then example_state [0, 1]
        (JupyterKernel_new example_host [''r-runtime'' \<mapsto> example_state] [0, 1]
           example_other_terminals (\<lambda>f. False) example_spec ''r-runtime'' False)) ''r-runtime'' = None
   \<and> effects (reconnect_then example_state [0, 1]
        (JupyterKernel_new example_host [''r-runtime'' \<mapsto> example_state] [0, 1]
           example_other_terminals (\<lambda>f. False) example_spec ''r-runtime'' False))
       = [Emit_status Initializing,
          Append_line (Log_found_record ''R'' (Some 4242) 2),
          Terminal_dispose 0,
          Append_line (Log_no_terminal ''r-runtime'' example_state),
          Emit_status Uninitialized]"
proof -
  have h: "[''r-runtime'' \<mapsto> example_state] ''r-runtime'' = Some example_state"
    by simp
  have n: "\<forall>t \<in> set [0, 1]. terminal_processId (example_other_terminals t) \<noteq> processId example_state"
    by (simp add: example_other_terminals_def example_state_def)
  from reconnect_without_terminal
         [where store = "[''r-runtime'' \<mapsto> example_state]" and runtimeId = "''r-runtime''"
            and sessionState = example_state and open_terminals = "[0, 1]"
            and terminal_objects = example_other_terminals and h = example_host
            and files = "\<lambda>f. False" and kspec = example_spec and lsp = False, OF h] n
  show ?thesis
    by (simp add: example_other_terminals_def example_state_def example_spec_def)
qed

text \<open>
  C1. While the state is \<open>Initializing\<close>, \<open>start()\<close> writes a log line and subscribes a
  callback to the status event: it emits no status, creates no session and launches
  nothing. When the state next changes to \<open>Uninitialized\<close>, each subscribed callback is
  removed and enters a timer of delay 0 whose firing runs the body of \<open>start()\<close> on the
  promise of the queued call; when it changes to a state other than \<open>Uninitialized\<close>,
  each subscribed callback is removed and rejects its promise with an error naming that
  state. In both cases nothing is launched by the change. (A status event that repeats
  \<open>Initializing\<close> leaves the callbacks subscribed.) Two calls of \<open>start()\<close> in a row from
  \<open>Uninitialized\<close> or \<open>Exited\<close>: the first makes the state \<open>Initializing\<close>, the second is
  queued, and when the session of the first is created exactly one terminal is launched
  and the promise of the second is rejected with \<open>Starting\<close>. Last, in every state that
  the supervisor reaches from its construction by turns of the event loop, a callback is
  subscribed only while the state is \<open>Initializing\<close>, and then no turn emits
  \<open>Initializing\<close>: the first status event a subscribed callback sees is a change of state.
\<close>

theorem start_while_initializing:
  "(m_status k = Initializing \<longrightarrow>
      (let p = next_promise k; k1 = snd (start k)
       in start k =
            (p, k\<lparr>next_promise := Suc p,
                  effects := effects k @ [Append_line (Log_start_deferring (display_name (m_spec k)))],
                  status_callbacks := status_callbacks k @ [p]\<rparr>)
          \<and> setStatus Uninitialized k1 =
              k1\<lparr>m_status := Uninitialized, status_callbacks := [],
                 effects := effects k1 @ Emit_status Uninitialized
                    # replicate (Suc (length (status_callbacks k)))
                        (Append_line (Log_deferred_start (display_name (m_spec k)))),
                 timers := timers k @ deferred_timers (next_timer k) (status_callbacks k @ [p]),
                 next_timer := next_timer k + Suc (length (status_callbacks k))\<rparr>
          \<and> (\<forall>st. st \<noteq> Uninitialized \<longrightarrow> st \<noteq> Initializing \<longrightarrow>
                effects (setStatus st k1) =
                  effects (onStatusChange st (do_effect (Emit_status st) k1))
                    @ rejections (display_name (m_spec k)) st (status_callbacks k @ [p])
                \<and> status_callbacks (setStatus st k1) = []
                \<and> launched (setStatus st k1) = launched k)
          \<and> setStatus Initializing k1 =
              k1\<lparr>effects := effects k1 @ [Emit_status Initializing], m_status := Initializing\<rparr>))
   \<and> (\<forall>h ms p k'. find (\<lambda>t. fst t = h) (timers k') = Some (h, ms, Deferred_start p) \<longrightarrow>
          timer_fires h k' = start_body p (clearTimeout h k'))
   \<and> (m_status k = Uninitialized \<or> m_status k = Exited \<longrightarrow>
        (let p1 = next_promise k; k1 = snd (start k); p2 = fst (start k1); k2 = snd (start k1)
         in m_status k1 = Initializing
            \<and> p2 = Suc p1
            \<and> launched k2 = launched k
            \<and> (\<forall>sess.
                  launched (start_after_session p1 sess k2)
                    = launched k @ [Create_terminal (terminal_options k sess)]
                  \<and> Promise_rejected p2 (Kernel_already Starting)
                       \<in> set (effects (start_after_session p1 sess k2))
                  \<and> status_callbacks (start_after_session p1 sess k2) = []
                  \<and> timers (start_after_session p1 sess k2) = timers k)))
   \<and> (let reached = run es (JupyterKernel_new hst store ts objs files kspec rid lsp)
       in status_callbacks reached = []
          \<or> (m_status reached = Initializing
              \<and> (\<forall>e. \<exists>sts. transitions (step e reached)
                               = transitions reached @ map Emit_status sts
                             \<and> Initializing \<notin> set sts)))"
proof (intro conjI impI allI)
  assume init: "m_status k = Initializing"
  define k1 where "k1 = snd (start k)"
  have k1: "k1 = k\<lparr>next_promise := Suc (next_promise k),
        effects := effects k @ [Append_line (Log_start_deferring (display_name (m_spec k)))],
        status_callbacks := status_callbacks k @ [next_promise k]\<rparr>"
    by (simp add: k1_def start_Initializing [OF init])
  have rej: "effects (setStatus st k1) =
                  effects (onStatusChange st (do_effect (Emit_status st) k1))
                    @ rejections (display_name (m_spec k)) st (status_callbacks k @ [next_promise k])
                \<and> status_callbacks (setStatus st k1) = []
                \<and> launched (setStatus st k1) = launched k"
    if "st \<noteq> Uninitialized" "st \<noteq> Initializing" for st
  proof -
    have "launched (setStatus st k1) = launched k"
      by (simp add: launched_setStatus) (simp add: k1 launched_def)
    moreover have "effects (setStatus st k1) =
                  effects (onStatusChange st (do_effect (Emit_status st) k1))
                    @ rejections (display_name (m_spec k)) st (status_callbacks k @ [next_promise k])
                \<and> status_callbacks (setStatus st k1) = []"
      using that by (simp add: setStatus_rejecting) (simp add: k1)
    ultimately show ?thesis by simp
  qed
  show "let p = next_promise k; k1 = snd (start k)
       in start k =
            (p, k\<lparr>next_promise := Suc p,
                  effects := effects k @ [Append_line (Log_start_deferring (display_name (m_spec k)))],
                  status_callbacks := status_callbacks k @ [p]\<rparr>)
          \<and> setStatus Uninitialized k1 =
              k1\<lparr>m_status := Uninitialized, status_callbacks := [],
                 effects := effects k1 @ Emit_status Uninitialized
                    # replicate (Suc (length (status_callbacks k)))
                        (Append_line (Log_deferred_start (display_name (m_spec k)))),
                 timers := timers k @ deferred_timers (next_timer k) (status_callbacks k @ [p]),
                 next_timer := next_timer k + Suc (length (status_callbacks k))\<rparr>
          \<and> (\<forall>st. st \<noteq> Uninitialized \<longrightarrow> st \<noteq> Initializing \<longrightarrow>
                effects (setStatus st k1) =
                  effects (onStatusChange st (do_effect (Emit_status st) k1))
                    @ rejections (display_name (m_spec k)) st (status_callbacks k @ [p])
                \<and> status_callbacks (setStatus st k1) = []
                \<and> launched (setStatus st k1) = launched k)
          \<and> setStatus Initializing k1 =
              k1\<lparr>effects := effects k1 @ [Emit_status Initializing], m_status := Initializing\<rparr>"
    unfolding Let_def k1_def [symmetric]
    using rej
    by (simp add: start_Initializing [OF init] setStatus_Initializing)
       (simp add: k1 setStatus_Uninitialized)
next
  fix h ms p and k' :: JupyterKernel
  assume "find (\<lambda>t. fst t = h) (timers k') = Some (h, ms, Deferred_start p)"
  then show "timer_fires h k' = start_body p (clearTimeout h k')"
    by (rule timer_fires_Deferred_start)
next
  assume fresh: "m_status k = Uninitialized \<or> m_status k = Exited"
  define k1 where "k1 = snd (start k)"
  have k1: "k1 = k\<lparr>next_promise := Suc (next_promise k),
        effects := effects k @ [Emit_status Initializing, Create_session],
        m_status := Initializing,
        awaiting_session := awaiting_session k @ [next_promise k]\<rparr>"
    by (simp add: k1_def start_fresh [OF fresh])
  then have i1: "m_status k1 = Initializing" by simp
  define k2 where "k2 = snd (start k1)"
  have s2: "start k1 = (Suc (next_promise k),
       k1\<lparr>next_promise := Suc (Suc (next_promise k)),
        effects := effects k1 @ [Append_line (Log_start_deferring (display_name (m_spec k)))],
        status_callbacks := status_callbacks k @ [Suc (next_promise k)]\<rparr>)"
    by (simp add: start_Initializing [OF i1]) (simp add: k1)
  show "let p1 = next_promise k; k1 = snd (start k); p2 = fst (start k1); k2 = snd (start k1)
         in m_status k1 = Initializing
            \<and> p2 = Suc p1
            \<and> launched k2 = launched k
            \<and> (\<forall>sess.
                  launched (start_after_session p1 sess k2)
                    = launched k @ [Create_terminal (terminal_options k sess)]
                  \<and> Promise_rejected p2 (Kernel_already Starting)
                       \<in> set (effects (start_after_session p1 sess k2))
                  \<and> status_callbacks (start_after_session p1 sess k2) = []
                  \<and> timers (start_after_session p1 sess k2) = timers k)"
    unfolding Let_def k1_def [symmetric]
    by (simp add: s2 i1 start_after_session_eq launched_def rejections_def terminal_options_def)
       (simp add: k1 split: option.splits)
next
  define reached where
    "reached = run es (JupyterKernel_new hst store ts objs files kspec rid lsp)"
  have inv: "invariant reached"
    by (simp add: reached_def invariant_reachable)
  have "status_callbacks reached = []
          \<or> (m_status reached = Initializing
              \<and> (\<forall>e. \<exists>sts. transitions (step e reached)
                               = transitions reached @ map Emit_status sts
                             \<and> Initializing \<notin> set sts))"
  proof (cases "status_callbacks reached = []")
    case True
    then show ?thesis by simp
  next
    case False
    from deferred_start_waits [OF inv False] show ?thesis by blast
  qed
  then show "let reached = run es (JupyterKernel_new hst store ts objs files kspec rid lsp)
       in status_callbacks reached = []
          \<or> (m_status reached = Initializing
              \<and> (\<forall>e. \<exists>sts. transitions (step e reached)
                               = transitions reached @ map Emit_status sts
                             \<and> Initializing \<notin> set sts))"
    unfolding Let_def reached_def .
qed

theorem start_while_initializing_witness:
  "m_status example_new = Uninitialized
   \<and> m_status (snd (start example_new)) = Initializing
   \<and> start (snd (start example_new)) =
        (1, (snd (start example_new))
              \<lparr>next_promise := 2,
               effects := effects (snd (start example_new))
                            @ [Append_line (Log_start_deferring ''R'')],
               status_callbacks := [1]\<rparr>)
   \<and> launched (snd (start (snd (start example_new)))) = []
   \<and> launched (start_after_session 0 example_session (snd (start (snd (start example_new)))))
        = [Create_terminal (terminal_options example_new example_session)]
   \<and> Promise_rejected 1 (Kernel_already Starting)
        \<in> set (effects (start_after_session 0 example_session (snd (start (snd (start example_new))))))
   \<and> timers (setStatus Uninitialized (snd (start (snd (start example_new)))))
        = [(0, 0, Deferred_start 1)]
   \<and> timer_fires 0 (setStatus Uninitialized (snd (start (snd (start example_new)))))
        = start_body 1 (clearTimeout 0 (setStatus Uninitialized (snd (start (snd (start example_new))))))
   \<and> status_callbacks (run [Call_start, Call_start] example_new) = [1]
   \<and> m_status (run [Call_start, Call_start] example_new) = Initializing
   \<and> (\<exists>sts. transitions (step (Timer_fired 0) (run [Call_start, Call_start] example_new))
               = transitions (run [Call_start, Call_start] example_new) @ map Emit_status sts
             \<and> Initializing \<notin> set sts)"
proof -
  have new: "m_status example_new = Uninitialized" "next_promise example_new = 0"
    "effects example_new = []" "status_callbacks example_new = []" "timers example_new = []"
    "next_timer example_new = 0" "m_spec example_new = example_spec"
    by (simp_all add: example_new_def JupyterKernel_new_def)
  define k1 where "k1 = snd (start example_new)"
  have k1: "k1 = example_new\<lparr>next_promise := 1,
        effects := [Emit_status Initializing, Create_session],
        m_status := Initializing, awaiting_session := awaiting_session example_new @ [0]\<rparr>"
    by (simp add: k1_def start_fresh new)
  then have i1: "m_status k1 = Initializing" by simp
  note fresh = start_while_initializing [of example_new, THEN conjunct2, THEN conjunct2,
      THEN conjunct1]
  note waits = start_while_initializing [where es = "[Call_start, Call_start]"
      and hst = example_host and store = Map.empty and ts = "[]"
      and objs = "\<lambda>t. example_terminal" and files = "\<lambda>f. False"
      and kspec = example_spec and rid = "''r-runtime''" and lsp = False,
      THEN conjunct2, THEN conjunct2, THEN conjunct2, unfolded Let_def,
      folded example_new_def]
  note queued = start_while_initializing [of k1, THEN conjunct1]
  note timer = start_while_initializing [of k1, THEN conjunct2, THEN conjunct1]
  from fresh new(1) have b0:
    "launched (snd (start k1)) = launched example_new
     \<and> fst (start k1) = Suc (next_promise example_new)
     \<and> (\<forall>sess. launched (start_after_session 0 sess (snd (start k1)))
            = launched example_new @ [Create_terminal (terminal_options example_new sess)]
          \<and> Promise_rejected (fst (start k1)) (Kernel_already Starting)
              \<in> set (effects (start_after_session 0 sess (snd (start k1)))))"
    unfolding Let_def k1_def by (auto simp: new(2))
  then have b:
    "launched (snd (start k1)) = launched example_new"
    "launched (start_after_session 0 example_session (snd (start k1)))
       = launched example_new @ [Create_terminal (terminal_options example_new example_session)]"
    "Promise_rejected (fst (start k1)) (Kernel_already Starting)
       \<in> set (effects (start_after_session 0 example_session (snd (start k1))))"
    "fst (start k1) = 1"
    by (auto simp: new(2))
  have k1f: "next_promise k1 = 1" "status_callbacks k1 = []" "timers k1 = []"
    "next_timer k1 = 0" "m_spec k1 = example_spec"
    by (simp_all add: k1 new)
  note q = queued [THEN mp, OF i1, unfolded Let_def]
  from q [THEN conjunct1] have a1:
    "start k1 = (1, k1\<lparr>next_promise := 2,
        effects := effects k1 @ [Append_line (Log_start_deferring ''R'')],
        status_callbacks := [1]\<rparr>)"
    by (simp add: k1f example_spec_def)
  have a2: "timers (setStatus Uninitialized (snd (start k1))) = [(0, 0, Deferred_start 1)]"
    by (simp add: q [THEN conjunct2, THEN conjunct1] k1f deferred_timers_def)
  note a = a1 a2
  have "find (\<lambda>t. fst t = 0) (timers (setStatus Uninitialized (snd (start k1))))
      = Some (0, 0, Deferred_start 1)"
    by (simp add: a(2))
  with timer have c: "timer_fires 0 (setStatus Uninitialized (snd (start k1)))
      = start_body 1 (clearTimeout 0 (setStatus Uninitialized (snd (start k1))))"
    by blast
  have r: "run [Call_start, Call_start] example_new = snd (start k1)"
    by (simp add: run_def step_def k1_def)
  have d1: "status_callbacks (run [Call_start, Call_start] example_new) = [1]"
    by (simp add: r a1)
  with waits have d2: "m_status (run [Call_start, Call_start] example_new) = Initializing"
    "\<exists>sts. transitions (step (Timer_fired 0) (run [Call_start, Call_start] example_new))
               = transitions (run [Call_start, Call_start] example_new) @ map Emit_status sts
             \<and> Initializing \<notin> set sts"
    by simp_all
  have old: "m_status example_new = Uninitialized
   \<and> m_status (snd (start example_new)) = Initializing
   \<and> start (snd (start example_new)) =
        (1, (snd (start example_new))
              \<lparr>next_promise := 2,
               effects := effects (snd (start example_new))
                            @ [Append_line (Log_start_deferring ''R'')],
               status_callbacks := [1]\<rparr>)
   \<and> launched (snd (start (snd (start example_new)))) = []
   \<and> launched (start_after_session 0 example_session (snd (start (snd (start example_new)))))
        = [Create_terminal (terminal_options example_new example_session)]
   \<and> Promise_rejected 1 (Kernel_already Starting)
        \<in> set (effects (start_after_session 0 example_session (snd (start (snd (start example_new))))))
   \<and> timers (setStatus Uninitialized (snd (start (snd (start example_new)))))
        = [(0, 0, Deferred_start 1)]
   \<and> timer_fires 0 (setStatus Uninitialized (snd (start (snd (start example_new)))))
        = start_body 1 (clearTimeout 0 (setStatus Uninitialized (snd (start (snd (start example_new))))))"
    using new(1) i1 a b c by (simp add: k1_def [symmetric] launched_def new)
  from old d1 d2 show ?thesis
    by (intro conjI) (elim conjE, assumption)+
qed

text \<open>
  C2. The claim holds but for the log line. \<open>heartbeat()\<close> sets one single-shot timer;
  when it fires the state becomes \<open>Offline\<close> with one status event; a reply never changes
  the state. But \<open>onHeartbeat\<close> writes its log line only if \<open>_lastHeartbeat\<close> is not 0,
  and \<open>heartbeat()\<close> stores the millisecond field of the clock there (0 to 999), not a
  timestamp. In the example the heartbeat is sent at a reading whose millisecond field is
  0, the timer fires, and the late reply leaves no trace in the log.
\<close>

theorem late_heartbeat_reply_not_logged:
  "heartbeat_onMessage ''hello'' example_connected = example_ready
   \<and> getUTCMilliseconds (clock (host example_connected) (clock_count example_connected)) = 0
   \<and> m_lastHeartbeat example_ready = 0
   \<and> timers example_ready = [(0, 30000, Heartbeat_timeout)]
   \<and> m_status (timer_fires 0 example_ready) = Offline
   \<and> effects (timer_fires 0 example_ready) = effects example_ready @ [Emit_status Offline]
   \<and> m_status (heartbeat_onMessage ''hello'' (timer_fires 0 example_ready)) = Offline
   \<and> effects (heartbeat_onMessage ''hello'' (timer_fires 0 example_ready))
        = effects (timer_fires 0 example_ready)"
proof -
  have f: "find (\<lambda>t. fst t = 0) (timers example_ready) = Some (0, 30000, Heartbeat_timeout)"
    by (simp add: example_ready_fields)
  have fired: "timer_fires 0 example_ready =
      example_ready\<lparr>timers := [], m_status := Offline, status_callbacks := [],
                     effects := effects example_ready @ [Emit_status Offline]\<rparr>"
    by (simp add: heartbeat_timeout_fires(1) [OF f] example_ready_fields rejections_def)
  have hb: "m_heartbeat (timer_fires 0 example_ready) =
      Some \<lparr>title = ''Heartbeat'', zmq_type = ''req'', zmq_identity = None,
            on_message = True, once_message = False\<rparr>"
    by (simp add: fired example_ready_fields)
  have late: "heartbeat_onMessage ''hello'' (timer_fires 0 example_ready)
      = onHeartbeat ''hello'' (timer_fires 0 example_ready)"
    by (simp add: heartbeat_onMessage_listening [OF hb])
  have zero: "m_lastHeartbeat (timer_fires 0 example_ready) = 0"
    by (simp add: fired example_ready_fields)
  have clock0: "getUTCMilliseconds (clock (host example_connected) (clock_count example_connected)) = 0"
    by (simp add: example_connected_def example_host_def)
  from onHeartbeat_status [of "''hello''" "timer_fires 0 example_ready"] zero
  have "m_status (onHeartbeat ''hello'' (timer_fires 0 example_ready)) = Offline"
    "effects (onHeartbeat ''hello'' (timer_fires 0 example_ready)) = effects (timer_fires 0 example_ready)"
    by (simp_all add: fired)
  with late clock0 show ?thesis
    by (simp add: example_ready_reached example_ready_fields fired)
qed

text \<open>
  C3. \<open>restart()\<close> sets the state to \<open>Exiting\<close> (twice) and sends the shutdown request on
  the control channel, but it waits for nothing: \<open>_process\<close> is null in every state that
  the supervisor reaches from its construction by turns of the event loop, so
  \<open>this._process?.once('exit', ...)\<close> registers no listener, and the exit of a process
  runs nothing. In the example the terminal then exits: the state becomes \<open>Exited\<close>,
  nothing has been launched and no start is pending.
\<close>

theorem restart_registers_no_listener:
  "(let reached = run es (JupyterKernel_new hst store ts objs files kspec rid lsp)
    in m_process reached = None
       \<and> m_status (snd (restart reached)) = Exiting
       \<and> m_process (snd (restart reached)) = None
       \<and> exit_listeners (snd (restart reached)) = []
       \<and> process_exit pr (snd (restart reached)) = snd (restart reached))
   \<and> m_process example_ready = None
   \<and> fst (restart example_ready) = None
   \<and> m_status (snd (restart example_ready)) = Exiting
   \<and> sent_content (last (effects (snd (restart example_ready))))
        = Some (Control, Shutdown_request True)
   \<and> exit_listeners (snd (restart example_ready)) = []
   \<and> process_exit 4242 (snd (restart example_ready)) = snd (restart example_ready)
   \<and> m_status (connectToTerminal_onDidCloseTerminal 0 0 example_restarted) = Exited
   \<and> launched (connectToTerminal_onDidCloseTerminal 0 0 example_restarted) = []
   \<and> awaiting_session (connectToTerminal_onDidCloseTerminal 0 0 example_restarted) = []
   \<and> status_callbacks (connectToTerminal_onDidCloseTerminal 0 0 example_restarted) = []
   \<and> exit_listeners (connectToTerminal_onDidCloseTerminal 0 0 example_restarted) = []"
proof -
  have r: "restart example_ready =
     (None,
      example_ready\<lparr>m_status := Exiting, uuid_count := 1, clock_count := 2,
        effects := effects example_ready @
          [Emit_status Exiting, Emit_status Exiting,
           Append_line (Log_send ''shutdown_request'' ''Control''
             (outbound ''u'' ''shutdown_request'' Empty_object
                (Shutdown_request True) \<lparr>state = example_state\<rparr> example_ready)),
           Socket_send Control
             (outbound ''u'' ''shutdown_request'' Empty_object
                (Shutdown_request True) \<lparr>state = example_state\<rparr> example_ready)
             ''secret'']\<rparr>)"
    using restart_connected [OF example_ready_fields(2) example_ready_fields(9)
            example_ready_fields(14) example_ready_fields(21)]
    by (simp add: example_ready_fields new_JupyterSocket_def example_host_def key_def
          example_state_def)
  have x: "example_restarted =
      example_ready\<lparr>m_status := Exiting, uuid_count := 1, clock_count := 2,
        effects := effects example_ready @
          [Emit_status Exiting, Emit_status Exiting,
           Append_line (Log_send ''shutdown_request'' ''Control''
             (outbound ''u'' ''shutdown_request'' Empty_object
                (Shutdown_request True) \<lparr>state = example_state\<rparr> example_ready)),
           Socket_send Control
             (outbound ''u'' ''shutdown_request'' Empty_object
                (Shutdown_request True) \<lparr>state = example_state\<rparr> example_ready)
             ''secret''],
        terminal_at := (\<lambda>t. example_terminal\<lparr>exitStatus := Some (Some 0)\<rparr>)\<rparr>"
    by (simp add: example_restarted_def r)
  have closed: "connectToTerminal_onDidCloseTerminal 0 0 example_restarted =
      (appendLine (Log_exited ''R'' 0) (setStatus Exited example_restarted))
        \<lparr>closeTerminal_listeners :=
           remove1 0 (closeTerminal_listeners
              (appendLine (Log_exited ''R'' 0) (setStatus Exited example_restarted)))\<rparr>"
    by (simp add: connectToTerminal_onDidCloseTerminal_def x example_ready_fields
          example_terminal_def example_spec_def Let_def)
  have after: "m_status (connectToTerminal_onDidCloseTerminal 0 0 example_restarted) = Exited"
    "launched (connectToTerminal_onDidCloseTerminal 0 0 example_restarted) = []"
    "awaiting_session (connectToTerminal_onDidCloseTerminal 0 0 example_restarted) = []"
    "status_callbacks (connectToTerminal_onDidCloseTerminal 0 0 example_restarted) = []"
    "exit_listeners (connectToTerminal_onDidCloseTerminal 0 0 example_restarted) = []"
    using launched_setStatus [of Exited example_restarted]
    by (simp_all add: closed appendLine_def do_effect_def setStatus_frame setStatus_callbacks
          launched_def)
       (simp_all add: x example_ready_fields)
  define reached where
    "reached = run es (JupyterKernel_new hst store ts objs files kspec rid lsp)"
  have "invariant reached"
    by (simp add: reached_def invariant_reachable)
  then have p: "m_process reached = None" "exit_listeners reached = []"
    by (simp_all add: invariant_def)
  from restart_no_process [OF p(1)] p(2)
  have g: "exit_listeners (snd (restart reached)) = []" "m_status (snd (restart reached)) = Exiting"
    by simp_all
  have s: "settles reached (snd (restart reached))"
    by (rule restart_settles [OF p(1)])
  then have "m_process (snd (restart reached)) = None"
    using p(1) by (auto simp: settles_def quiet_def)
  with p g process_exit_no_listener [OF g(1), of pr]
  have general: "let reached = run es (JupyterKernel_new hst store ts objs files kspec rid lsp)
    in m_process reached = None
       \<and> m_status (snd (restart reached)) = Exiting
       \<and> m_process (snd (restart reached)) = None
       \<and> exit_listeners (snd (restart reached)) = []
       \<and> process_exit pr (snd (restart reached)) = snd (restart reached)"
    unfolding Let_def reached_def by simp
  have example: "m_process example_ready = None
   \<and> fst (restart example_ready) = None
   \<and> m_status (snd (restart example_ready)) = Exiting
   \<and> sent_content (last (effects (snd (restart example_ready))))
        = Some (Control, Shutdown_request True)
   \<and> exit_listeners (snd (restart example_ready)) = []
   \<and> process_exit 4242 (snd (restart example_ready)) = snd (restart example_ready)
   \<and> m_status (connectToTerminal_onDidCloseTerminal 0 0 example_restarted) = Exited
   \<and> launched (connectToTerminal_onDidCloseTerminal 0 0 example_restarted) = []
   \<and> awaiting_session (connectToTerminal_onDidCloseTerminal 0 0 example_restarted) = []
   \<and> status_callbacks (connectToTerminal_onDidCloseTerminal 0 0 example_restarted) = []
   \<and> exit_listeners (connectToTerminal_onDidCloseTerminal 0 0 example_restarted) = []"
    using r after by (simp add: example_ready_fields process_exit_def outbound_def)
  from general example show ?thesis
    by (rule conjI)
qed

text \<open>
  C9. Each decoded message on the iopub, shell or stdin socket is emitted as one packet
  with the channel, the content, the message id, the message type and the date of its
  header. But for a message whose parent header is the empty object, which is how a
  message without parent is written, \<open>originId\<close> is undefined, not the empty string: the
  empty object is truthy and has no \<open>msg_id\<close>.
\<close>

theorem parentless_message_origin_undefined:
  "parent_header example_status = Empty_object
   \<and> iopub_onMessage (Some example_status) example_ready =
       example_ready
         \<lparr>effects := effects example_ready @
            [Append_line (Log_recv ''status'' IOPub example_status),
             Emit_message
               \<lparr>packet_type = ''jupyter-message'',
                message = Json ''{execution_state: starting}'',
                msgId = ''k-1'', msgType = ''status'',
                when_ = ''2023-01-01T00:00:00.500Z'',
                originId = None, socket = IOPub\<rparr>]\<rparr>"
  by (simp add: iopub_onMessage_def emitMessage_eq example_status_def)

end
